theory Spec2Isabelle
  imports Main "HOL-Library.Sublist"
begin

section \<open>Strings and numbers as the TypeScript sources use them\<close>

text \<open>
  JavaScript strings are modelled as \<open>string\<close>. \<open>String.prototype.includes\<close> (here \<open>str_includes\<close>) is a
  substring test, \<open>endsWith\<close> a suffix test, \<open>Array.prototype.join\<close> intercalates a
  separator, and a number inside a template literal is rendered in decimal.
\<close>

fun str_includes :: "string \<Rightarrow> string \<Rightarrow> bool" where
  "str_includes [] sub = (sub = [])"
| "str_includes (c # cs) sub = (prefix sub (c # cs) \<or> str_includes cs sub)"

definition endsWith :: "string \<Rightarrow> string \<Rightarrow> bool" where
  "endsWith s suf = suffix suf s"

fun join :: "string \<Rightarrow> string list \<Rightarrow> string" where
  "join sep [] = []"
| "join sep [x] = x"
| "join sep (x # y # ys) = x @ sep @ join sep (y # ys)"

definition digit :: "nat \<Rightarrow> char" where
  "digit d = ''0123456789'' ! (d mod 10)"

function show_nat :: "nat \<Rightarrow> string" where
  "show_nat n = (if n < 10 then [digit n] else show_nat (n div 10) @ [digit (n mod 10)])"
  by pat_completeness auto
termination
  by (relation "measure id") auto

declare show_nat.simps [simp del]

definition show_int :: "int \<Rightarrow> string" where
  "show_int i = (if i < 0 then ''-'' @ show_nat (nat (- i)) else show_nat (nat i))"

text \<open>An exit code is \<open>number | null\<close>; \<open>null\<close> prints as the word null.\<close>

definition show_code :: "int option \<Rightarrow> string" where
  "show_code c = (case c of None \<Rightarrow> ''null'' | Some i \<Rightarrow> show_int i)"

definition nl :: string where
  "nl = [CHR 0x0A]"

definition dquote :: string where
  "dquote = [CHR 0x22]"

definition squote :: string where
  "squote = [CHR 0x27]"

text \<open>\<open>a || b\<close> on an optional string: \<open>undefined\<close> and the empty string are falsy.\<close>

definition orElse :: "string option \<Rightarrow> string \<Rightarrow> string" where
  "orElse a b = (case a of None \<Rightarrow> b | Some x \<Rightarrow> if x \<noteq> [] then x else b)"

section \<open>The outside world\<close>

text \<open>
  Everything the orchestration core does not compute itself is answered by the world:
  child processes, the generation service, the file system, the SSH session and the
  Node library functions on paths and JSON.  Each answer may depend on the moment of the
  call (the clock of the state), so a command can fail first and succeed later.
  An operation that can reject answers \<open>Some message\<close> (or \<open>Inl message\<close>) when it throws.
\<close>

type_synonym files = "(string \<times> string) list"

type_synonym outputs = "(string \<times> string) list"

datatype proc_outcome =
    Closed string string "int option"
  | SpawnError string string

datatype ssh_outcome =
    SshResult string string "int option"
  | SshThrow string

record world =
  spawn :: "nat \<Rightarrow> string \<Rightarrow> proc_outcome"
  llm :: "nat \<Rightarrow> string \<Rightarrow> string option \<Rightarrow> string + files"
  fs_ensureDir :: "nat \<Rightarrow> string \<Rightarrow> string option"
  fs_writeFile :: "nat \<Rightarrow> string \<Rightarrow> string \<Rightarrow> string option"
  fs_remove :: "nat \<Rightarrow> string \<Rightarrow> string option"
  fs_readFile :: "nat \<Rightarrow> string \<Rightarrow> string + string"
  ssh_connect :: "nat \<Rightarrow> string \<Rightarrow> string option"
  ssh_execCommand :: "nat \<Rightarrow> string \<Rightarrow> ssh_outcome"
  ssh_putFile :: "nat \<Rightarrow> string \<Rightarrow> string \<Rightarrow> string option"
  path_join :: "string \<Rightarrow> string \<Rightarrow> string"
  path_dirname :: "string \<Rightarrow> string"
  path_basename :: "string \<Rightarrow> string"
  json_parses :: "string \<Rightarrow> bool"
  json_stringify :: "outputs \<Rightarrow> string"

text \<open>
  The trace records every interaction with the world in the order it happened:
  a local command with its success flag, a remote command with what the session
  answered (the result with its exit code as the session gave it, or what the call
  threw), a request to the generation service, and the life cycle of the SSH session
  and of the files delivered.
\<close>

datatype event =
    Exec string bool
  | RExec string ssh_outcome
  | Generate string "string option"
  | ReadFile string bool
  | Connect bool
  | Dispose
  | EnsureDir string bool
  | WriteFile string bool
  | RemoveFile string bool
  | PutFile string bool

record state =
  clock :: nat
  connected :: bool
  trace :: "event list"

definition tick :: "event \<Rightarrow> state \<Rightarrow> state" where
  "tick e s = s\<lparr>clock := Suc (clock s), trace := trace s @ [e]\<rparr>"

section \<open>The local executor (src/core/executor.ts)\<close>

record ExecutionResult =
  success :: bool
  output' :: string
  error :: "string option"
  exitCode :: int

text \<open>
  \<open>executeCommand\<close> resolves on the close event with the combined output, and on the
  error event with the standard output seen so far; it never rejects.
\<close>

definition toExecutionResult :: "proc_outcome \<Rightarrow> ExecutionResult" where
  "toExecutionResult p =
     (case p of
        Closed stdout stderr code \<Rightarrow>
          \<lparr>success = (code = Some 0),
           output' = stdout @ stderr,
           error = (if code = Some 0 then None
                    else Some (if stderr \<noteq> [] then stderr
                               else ''Command exited with code '' @ show_code code)),
           exitCode = (case code of None \<Rightarrow> 0 | Some c \<Rightarrow> c)\<rparr>
      | SpawnError stdout msg \<Rightarrow>
          \<lparr>success = False, output' = stdout, error = Some msg, exitCode = 1\<rparr>)"

definition executeCommand ::
  "world \<Rightarrow> string \<Rightarrow> string list \<Rightarrow> state \<Rightarrow> ExecutionResult \<times> state" where
  "executeCommand w command args s =
     (let line = join '' '' (command # args);
          r = toExecutionResult (spawn w (clock s) line)
      in (r, tick (Exec line (success r)) s))"

definition noFix :: ExecutionResult where
  "noFix = \<lparr>success = False, output' = ''No automatic fix available'',
            error = None, exitCode = 1\<rparr>"

text \<open>\<open>result.output || result.error || ''\<close>: the empty string is falsy.\<close>

definition outputOrError :: "ExecutionResult \<Rightarrow> string" where
  "outputOrError r =
     (if output' r \<noteq> [] then output' r
      else case error r of None \<Rightarrow> [] | Some e \<Rightarrow> e)"

definition attemptBuildFix ::
  "world \<Rightarrow> ExecutionResult \<Rightarrow> state \<Rightarrow> ExecutionResult \<times> state" where
  "attemptBuildFix w buildResult s =
     (let out = outputOrError buildResult in
      if str_includes out ''Cannot find module'' \<or> str_includes out ''Module not found''
      then executeCommand w ''npm'' [''install''] s
      else if str_includes out ''go.mod'' \<or> str_includes out ''go.sum''
      then (let (result1, s1) = executeCommand w ''go'' [''mod'', ''tidy''] s in
            if success result1
            then executeCommand w ''go'' [''mod'', ''download''] s1
            else (result1, s1))
      else (noFix, s))"

definition attemptSynthFix ::
  "world \<Rightarrow> ExecutionResult \<Rightarrow> state \<Rightarrow> ExecutionResult \<times> state" where
  "attemptSynthFix w synthResult s =
     (let out = outputOrError synthResult in
      if str_includes out ''cdktf get'' \<or> str_includes out ''.gen''
      then executeCommand w ''npx'' [''cdktf'', ''get''] s
      else (noFix, s))"

definition attemptLintFix ::
  "world \<Rightarrow> ExecutionResult \<Rightarrow> state \<Rightarrow> ExecutionResult \<times> state" where
  "attemptLintFix w lintResult s =
     (let out = outputOrError lintResult in
      if str_includes out ''gofmt'' \<or> str_includes out ''format''
      then executeCommand w ''gofmt'' [''-w'', ''.''] s
      else (noFix, s))"

definition attemptDeployFix ::
  "world \<Rightarrow> ExecutionResult \<Rightarrow> state \<Rightarrow> ExecutionResult \<times> state" where
  "attemptDeployFix w deployResult s =
     (let out = outputOrError deployResult in
      if str_includes out ''credentials'' \<or> str_includes out ''access denied''
      then (\<lparr>success = False, output' = ''AWS credentials need to be configured'',
             error = None, exitCode = 1\<rparr>, s)
      else if str_includes out ''already exists'' \<or> str_includes out ''conflict''
      then executeCommand w ''npm'' [''run'', ''destroy''] s
      else (noFix, s))"

text \<open>
  The four keyed entries of the \<open>results\<close> object of a pipeline run. The object lives
  outside the retry loop, so an entry written in an earlier pass stays until the same
  phase runs again.
\<close>

record 'r Results =
  build :: "'r option"
  synth :: "'r option"
  lint :: "'r option"
  deploy :: "'r option"

definition noResults :: "'r Results" where
  "noResults = \<lparr>build = None, synth = None, lint = None, deploy = None\<rparr>"

record BuildCycleResult =
  b_success :: bool
  b_results :: "ExecutionResult Results"
  finalError :: "string option"

text \<open>
  One phase of a pass: run the command; on failure ask the phase's fixer, and run the
  command once more when the fixer's own command succeeded.  The value returned first
  is the entry of \<open>results\<close> for the phase as the following test reads it.
\<close>

definition runPhase ::
  "world \<Rightarrow> string
   \<Rightarrow> (world \<Rightarrow> ExecutionResult \<Rightarrow> state \<Rightarrow> ExecutionResult \<times> state)
   \<Rightarrow> state \<Rightarrow> ExecutionResult \<times> state" where
  "runPhase w script attemptFix s =
     (let (r, s1) = executeCommand w ''npm'' [''run'', script] s in
      if \<not> success r
      then (let (fixResult, s2) = attemptFix w r s1 in
            if success fixResult
            then executeCommand w ''npm'' [''run'', script] s2
            else (r, s2))
      else (r, s1))"

datatype pass_outcome =
    Return BuildCycleResult
  | Continue "ExecutionResult Results"

text \<open>The body of the \<open>while\<close> loop of \<open>executeBuildCycle\<close>, with \<open>attempt\<close> already incremented.\<close>

definition buildPass ::
  "world \<Rightarrow> int \<Rightarrow> int \<Rightarrow> ExecutionResult Results \<Rightarrow> state \<Rightarrow> pass_outcome \<times> state" where
  "buildPass w maxAttempts attempt results s =
     (let (rb, s1) = runPhase w ''build'' attemptBuildFix s;
          results1 = results\<lparr>build := Some rb\<rparr>
      in
      if \<not> success rb
      then (if attempt = maxAttempts
            then (Return \<lparr>b_success = False, b_results = results1,
                          finalError = Some ''Build phase failed after all attempts''\<rparr>, s1)
            else (Continue results1, s1))
      else
      (let (rs, s2) = runPhase w ''synth'' attemptSynthFix s1;
           results2 = results1\<lparr>synth := Some rs\<rparr>
       in
       if \<not> success rs
       then (if attempt = maxAttempts
             then (Return \<lparr>b_success = False, b_results = results2,
                           finalError = Some ''Synth phase failed after all attempts''\<rparr>, s2)
             else (Continue results2, s2))
       else
       (let (rl, s3) = runPhase w ''lint'' attemptLintFix s2;
            results3 = results2\<lparr>lint := Some rl\<rparr>
        in
        if \<not> success rl
        then (if attempt = maxAttempts
              then (Return \<lparr>b_success = False, b_results = results3,
                            finalError = Some ''Lint phase failed after all attempts''\<rparr>, s3)
              else (Continue results3, s3))
        else
        (let (rd, s4) = runPhase w ''deploy'' attemptDeployFix s3;
             results4 = results3\<lparr>deploy := Some rd\<rparr>
         in (Return \<lparr>b_success = True, b_results = results4, finalError = None\<rparr>, s4)))))"

function executeBuildCycle_loop ::
  "world \<Rightarrow> int \<Rightarrow> int \<Rightarrow> ExecutionResult Results \<Rightarrow> state \<Rightarrow> BuildCycleResult \<times> state" where
  "executeBuildCycle_loop w maxAttempts attempt results s =
     (if attempt < maxAttempts
      then (case buildPass w maxAttempts (attempt + 1) results s of
              (Return r, s') \<Rightarrow> (r, s')
            | (Continue results', s') \<Rightarrow>
                executeBuildCycle_loop w maxAttempts (attempt + 1) results' s')
      else (\<lparr>b_success = False, b_results = results,
             finalError = Some ''Build cycle failed after maximum attempts''\<rparr>, s))"
  by pat_completeness auto
termination
  by (relation "measure (\<lambda>(w, maxAttempts, attempt, results, s). nat (maxAttempts - attempt))")
     auto

declare executeBuildCycle_loop.simps [simp del]

definition executeBuildCycle :: "world \<Rightarrow> int \<Rightarrow> state \<Rightarrow> BuildCycleResult \<times> state" where
  "executeBuildCycle w maxAttempts s = executeBuildCycle_loop w maxAttempts 0 noResults s"

section \<open>The remote backend (src/ssh/mcp-server.ts)\<close>

record SSHConfig =
  host :: string
  port :: "int option"
  username :: string
  privateKeyPath :: string
  passphrase :: "string option"

record MCPServerConfig =
  sshConfig :: SSHConfig
  workingDirectory :: string
  githubRepoUrl :: string
  environmentVariables :: "(string \<times> string) list option"

record RemoteResult =
  stdout :: string
  stderr :: string
  code :: int

text \<open>
  A call that can throw returns \<open>Inl message\<close> for the exception and \<open>Inr v\<close> for the
  value, next to the state it leaves behind; \<open>bindR\<close> runs the continuation only after
  a value, as a sequence of awaited calls does.
\<close>

definition bindR ::
  "(string + 'a) \<times> state \<Rightarrow> ('a \<Rightarrow> state \<Rightarrow> (string + 'b) \<times> state)
   \<Rightarrow> (string + 'b) \<times> state" where
  "bindR m f = (case m of (Inl e, s) \<Rightarrow> (Inl e, s) | (Inr a, s) \<Rightarrow> f a s)"

definition connect :: "world \<Rightarrow> MCPServerConfig \<Rightarrow> state \<Rightarrow> (string + unit) \<times> state" where
  "connect w cfg s =
     (case fs_readFile w (clock s) (privateKeyPath (sshConfig cfg)) of
        Inl e \<Rightarrow> (Inl e, tick (ReadFile (privateKeyPath (sshConfig cfg)) False) s)
      | Inr privateKey \<Rightarrow>
          (let s1 = tick (ReadFile (privateKeyPath (sshConfig cfg)) True) s in
           case ssh_connect w (clock s1) privateKey of
             Some e \<Rightarrow> (Inl e, tick (Connect False) s1)
           | None \<Rightarrow> (Inr (), (tick (Connect True) s1)\<lparr>connected := True\<rparr>)))"

definition disconnect :: "state \<Rightarrow> state" where
  "disconnect s = (if connected s then (tick Dispose s)\<lparr>connected := False\<rparr> else s)"

text \<open>
  \<open>executeRemoteCommand\<close> reports \<open>result.code || 0\<close>, so a missing exit code
  (\<open>null\<close>, a command ended by a signal) is reported to the caller as 0. The trace
  keeps the command as the caller gave it and the answer of the session as it came.
\<close>

definition executeRemoteCommand ::
  "world \<Rightarrow> MCPServerConfig \<Rightarrow> string \<Rightarrow> string option \<Rightarrow> state
   \<Rightarrow> (string + RemoteResult) \<times> state" where
  "executeRemoteCommand w cfg command cwd s =
     (if \<not> connected s then (Inl ''SSH not connected'', s)
      else
        (let workingDir = orElse cwd (workingDirectory cfg);
             fullCommand = ''cd '' @ workingDir @ '' && '' @ command
         in case ssh_execCommand w (clock s) fullCommand of
              SshThrow e \<Rightarrow> (Inl e, tick (RExec command (SshThrow e)) s)
            | SshResult out err c \<Rightarrow>
                (Inr \<lparr>stdout = out, stderr = err,
                      code = (case c of None \<Rightarrow> 0 | Some i \<Rightarrow> i)\<rparr>,
                 tick (RExec command (SshResult out err c)) s)))"

definition cloneRepository ::
  "world \<Rightarrow> MCPServerConfig \<Rightarrow> state \<Rightarrow> (string + unit) \<times> state" where
  "cloneRepository w cfg s =
     bindR (executeRemoteCommand w cfg (''test -d '' @ workingDirectory cfg @ ''/.git'') None s)
       (\<lambda>checkRepoResult s1.
          if code checkRepoResult = 0
          then bindR (executeRemoteCommand w cfg ''git pull origin main''
                        (Some (workingDirectory cfg)) s1)
                 (\<lambda>_ s2. (Inr (), s2))
          else
            (let parentDir = path_dirname w (workingDirectory cfg);
                 repoName = path_basename w (workingDirectory cfg)
             in bindR (executeRemoteCommand w cfg (''mkdir -p '' @ parentDir) None s1)
                  (\<lambda>_ s2.
                     bindR (executeRemoteCommand w cfg
                              (''git clone '' @ githubRepoUrl cfg @ '' '' @ repoName)
                              (Some parentDir) s2)
                       (\<lambda>_ s3. (Inr (), s3)))))"

definition installDependencies ::
  "world \<Rightarrow> MCPServerConfig \<Rightarrow> state \<Rightarrow> (string + unit) \<times> state" where
  "installDependencies w cfg s =
     bindR (executeRemoteCommand w cfg ''test -f package.json'' None s)
       (\<lambda>packageJsonExists s1.
          bindR (if code packageJsonExists = 0
                 then bindR (executeRemoteCommand w cfg ''npm install'' None s1)
                        (\<lambda>_ s2. (Inr (), s2))
                 else (Inr (), s1))
            (\<lambda>_ s2.
               bindR (executeRemoteCommand w cfg ''test -f go.mod'' None s2)
                 (\<lambda>goModExists s3.
                    if code goModExists = 0
                    then bindR (executeRemoteCommand w cfg ''go mod tidy'' None s3)
                           (\<lambda>_ s4.
                              bindR (executeRemoteCommand w cfg ''go mod download'' None s4)
                                (\<lambda>_ s5. (Inr (), s5)))
                    else (Inr (), s3))))"

definition setupEnvironmentVariables ::
  "world \<Rightarrow> MCPServerConfig \<Rightarrow> state \<Rightarrow> (string + unit) \<times> state" where
  "setupEnvironmentVariables w cfg s =
     (case environmentVariables cfg of
        None \<Rightarrow> (Inr (), s)
      | Some vars \<Rightarrow>
          (let envVars = join nl (map (\<lambda>(k, v). ''export '' @ k @ ''='' @ dquote @ v @ dquote) vars)
           in bindR (executeRemoteCommand w cfg
                       (''echo '' @ squote @ envVars @ squote @ '' >> ~/.bashrc'') None s)
                (\<lambda>_ s1. (Inr (), s1))))"

definition setupRemoteEnvironment ::
  "world \<Rightarrow> MCPServerConfig \<Rightarrow> state \<Rightarrow> (string + unit) \<times> state" where
  "setupRemoteEnvironment w cfg s =
     bindR (cloneRepository w cfg s)
       (\<lambda>_ s1. bindR (installDependencies w cfg s1)
                  (\<lambda>_ s2. setupEnvironmentVariables w cfg s2))"

text \<open>
  \<open>uploadGeneratedCode\<close> walks the entries of the file object in order. A failed
  \<open>putFile\<close> (or a failed removal of the temporary file inside the \<open>try\<close>) removes the
  temporary file, ignoring what that removal answers, and rethrows.
\<close>

fun uploadGeneratedCode ::
  "world \<Rightarrow> MCPServerConfig \<Rightarrow> files \<Rightarrow> state \<Rightarrow> (string + unit) \<times> state" where
  "uploadGeneratedCode w cfg [] s = (Inr (), s)"
| "uploadGeneratedCode w cfg ((filePath, content) # rest) s =
     (let remotePath = path_join w (workingDirectory cfg) filePath;
          remoteDir = path_dirname w remotePath
      in case executeRemoteCommand w cfg (''mkdir -p '' @ remoteDir) None s of
           (Inl e, s1) \<Rightarrow> (Inl e, s1)
         | (Inr _, s1) \<Rightarrow>
             (let tempFile = path_join w ''/tmp'' (path_basename w filePath) in
              case fs_writeFile w (clock s1) tempFile content of
                Some e \<Rightarrow> (Inl e, tick (WriteFile tempFile False) s1)
              | None \<Rightarrow>
                  (let s2 = tick (WriteFile tempFile True) s1 in
                   case ssh_putFile w (clock s2) tempFile remotePath of
                     Some e \<Rightarrow>
                       (let s3 = tick (PutFile remotePath False) s2 in
                        (Inl e, tick (RemoveFile tempFile (fs_remove w (clock s3) tempFile = None)) s3))
                   | None \<Rightarrow>
                       (let s3 = tick (PutFile remotePath True) s2 in
                        case fs_remove w (clock s3) tempFile of
                          Some e \<Rightarrow>
                            (let s4 = tick (RemoveFile tempFile False) s3 in
                             (Inl e, tick (RemoveFile tempFile (fs_remove w (clock s4) tempFile = None)) s4))
                        | None \<Rightarrow>
                            uploadGeneratedCode w cfg rest (tick (RemoveFile tempFile True) s3)))))"

record RemoteBuildResult =
  rb_success :: bool
  rb_results :: "RemoteResult Results"
  rb_error :: "string option"

text \<open>The \<open>catch\<close> of \<open>executeRemoteBuildCycle\<close>: a thrown call gives a failure with no results.\<close>

definition remoteCaught :: "string \<Rightarrow> RemoteBuildResult" where
  "remoteCaught e = \<lparr>rb_success = False, rb_results = noResults, rb_error = Some e\<rparr>"

definition executeRemoteBuildCycle ::
  "world \<Rightarrow> MCPServerConfig \<Rightarrow> state \<Rightarrow> RemoteBuildResult \<times> state" where
  "executeRemoteBuildCycle w cfg s =
     (case executeRemoteCommand w cfg ''npm run build'' None s of
        (Inl e, s1) \<Rightarrow> (remoteCaught e, s1)
      | (Inr rb, s1) \<Rightarrow>
     (let results1 = noResults\<lparr>build := Some rb\<rparr> in
      if code rb \<noteq> 0
      then (\<lparr>rb_success = False, rb_results = results1,
             rb_error = Some ''Remote build failed''\<rparr>, s1)
      else
     (case executeRemoteCommand w cfg ''npm run synth'' None s1 of
        (Inl e, s2) \<Rightarrow> (remoteCaught e, s2)
      | (Inr rs, s2) \<Rightarrow>
     (let results2 = results1\<lparr>synth := Some rs\<rparr> in
      if code rs \<noteq> 0
      then (\<lparr>rb_success = False, rb_results = results2,
             rb_error = Some ''Remote synth failed''\<rparr>, s2)
      else
     (case executeRemoteCommand w cfg ''npm run lint'' None s2 of
        (Inl e, s3) \<Rightarrow> (remoteCaught e, s3)
      | (Inr rl, s3) \<Rightarrow>
     (let results3 = results2\<lparr>lint := Some rl\<rparr> in
      if code rl \<noteq> 0
      then (\<lparr>rb_success = False, rb_results = results3,
             rb_error = Some ''Remote lint failed''\<rparr>, s3)
      else
     (case executeRemoteCommand w cfg ''npm run deploy'' None s3 of
        (Inl e, s4) \<Rightarrow> (remoteCaught e, s4)
      | (Inr rd, s4) \<Rightarrow>
     (let results4 = results3\<lparr>deploy := Some rd\<rparr> in
      if code rd \<noteq> 0
      then (\<lparr>rb_success = False, rb_results = results4,
             rb_error = Some ''Remote deploy failed''\<rparr>, s4)
      else (\<lparr>rb_success = True, rb_results = results4, rb_error = None\<rparr>, s4)))))))))"

text \<open>
  \<open>downloadDeploymentOutputs\<close> probes three well-known locations in order and keeps
  what exists: the listing of a directory, the content of a file that \<open>cat\<close> could read.
  The value kept is the text received (the source stores its JSON reading when it has
  one). An exception anywhere gives the empty object.
\<close>

fun downloadFrom ::
  "world \<Rightarrow> MCPServerConfig \<Rightarrow> string list \<Rightarrow> outputs \<Rightarrow> state
   \<Rightarrow> (string + outputs) \<times> state" where
  "downloadFrom w cfg [] outs s = (Inr outs, s)"
| "downloadFrom w cfg (file # rest) outs s =
     (let remotePath = path_join w (workingDirectory cfg) file in
      case executeRemoteCommand w cfg (''test -e '' @ remotePath) None s of
        (Inl e, s1) \<Rightarrow> (Inl e, s1)
      | (Inr checkResult, s1) \<Rightarrow>
          if code checkResult = 0
          then (if endsWith file ''/''
                then (case executeRemoteCommand w cfg (''ls -la '' @ remotePath) None s1 of
                        (Inl e, s2) \<Rightarrow> (Inl e, s2)
                      | (Inr listResult, s2) \<Rightarrow>
                          downloadFrom w cfg rest (outs @ [(file, stdout listResult)]) s2)
                else (case executeRemoteCommand w cfg (''cat '' @ remotePath) None s1 of
                        (Inl e, s2) \<Rightarrow> (Inl e, s2)
                      | (Inr catResult, s2) \<Rightarrow>
                          if code catResult = 0
                          then downloadFrom w cfg rest (outs @ [(file, stdout catResult)]) s2
                          else downloadFrom w cfg rest outs s2))
          else downloadFrom w cfg rest outs s1)"

definition outputFiles :: "string list" where
  "outputFiles = [''cfn-outputs/'', ''cdk-stacks.json'', ''terraform.tfstate'']"

definition downloadDeploymentOutputs ::
  "world \<Rightarrow> MCPServerConfig \<Rightarrow> state \<Rightarrow> outputs \<times> state" where
  "downloadDeploymentOutputs w cfg s =
     (case downloadFrom w cfg outputFiles [] s of
        (Inl e, s') \<Rightarrow> ([], s')
      | (Inr outs, s') \<Rightarrow> (outs, s'))"

section \<open>The generator (src/core/generator.ts)\<close>

record GeneratorConfig =
  anthropicApiKey :: string
  templatePath :: string
  outputPath :: string
  repositoryName :: string

record GenerationRequest =
  prompt :: string
  context' :: "string option"

record GenerationResult =
  g_success :: bool
  files :: files
  g_error :: "string option"

text \<open>
  \<open>generateCDKTFGoCode\<close> wraps the whole exchange with the generation service in a
  \<open>try\<close>: the world answers with the file object read from the response, or with the
  message of whatever was thrown on the way.
\<close>

definition generateCDKTFGoCode ::
  "world \<Rightarrow> GenerationRequest \<Rightarrow> state \<Rightarrow> GenerationResult \<times> state" where
  "generateCDKTFGoCode w request s =
     (case llm w (clock s) (prompt request) (context' request) of
        Inl e \<Rightarrow> \<lparr>g_success = False, files = [], g_error = Some e\<rparr>
      | Inr fs \<Rightarrow> \<lparr>g_success = True, files = fs, g_error = None\<rparr>,
      tick (Generate (prompt request) (context' request)) s)"

fun writeGeneratedFiles ::
  "world \<Rightarrow> GeneratorConfig \<Rightarrow> files \<Rightarrow> state \<Rightarrow> (string + unit) \<times> state" where
  "writeGeneratedFiles w cfg [] s = (Inr (), s)"
| "writeGeneratedFiles w cfg ((filePath, content) # rest) s =
     (let fullPath = path_join w (outputPath cfg) filePath;
          dir = path_dirname w fullPath
      in case fs_ensureDir w (clock s) dir of
           Some e \<Rightarrow> (Inl e, tick (EnsureDir dir False) s)
         | None \<Rightarrow>
             (let s1 = tick (EnsureDir dir True) s in
              case fs_writeFile w (clock s1) fullPath content of
                Some e \<Rightarrow> (Inl e, tick (WriteFile fullPath False) s1)
              | None \<Rightarrow> writeGeneratedFiles w cfg rest (tick (WriteFile fullPath True) s1)))"

record Validation =
  valid :: bool
  errors :: "string list"

text \<open>\<open>files[file]\<close> is falsy for a missing entry and for an empty content.\<close>

definition present :: "files \<Rightarrow> string \<Rightarrow> bool" where
  "present fs file = (case map_of fs file of None \<Rightarrow> False | Some content \<Rightarrow> content \<noteq> [])"

definition requiredFiles :: "string list" where
  "requiredFiles = [''lib/tap_stack.go'', ''bin/tap.go'', ''cdk.json'']"

definition validateGeneratedCode :: "world \<Rightarrow> files \<Rightarrow> Validation" where
  "validateGeneratedCode w fs =
     (let errors1 = concat (map (\<lambda>file. if \<not> present fs file
                                           then [''Missing required file: '' @ file] else [])
                              requiredFiles);
          errors2 = concat (map (\<lambda>(filePath, content).
                                   if endsWith filePath ''.go'' \<and> \<not> str_includes content ''package ''
                                   then [filePath @ '': Missing package declaration''] else [])
                              fs);
          errors3 = (case map_of fs ''cdk.json'' of
                       None \<Rightarrow> []
                     | Some content \<Rightarrow>
                         if content \<noteq> [] \<and> \<not> json_parses w content
                         then [''cdk.json: Invalid JSON format''] else []);
          errs = errors1 @ errors2 @ errors3
      in \<lparr>valid = (errs = []), errors = errs\<rparr>)"

section \<open>The agent (src/core/agent.ts)\<close>

datatype ExecutionMode = Local | Remote

record AgentConfig =
  generatorConfig :: GeneratorConfig
  mcpServerConfig :: "MCPServerConfig option"
  maxCycles :: int
  executionMode :: ExecutionMode

text \<open>
  The constructor creates the executor in local mode and the MCP server in any other
  mode that has a server configuration; \<open>mcpServer\<close> is that optional member.
\<close>

definition mcpServer :: "AgentConfig \<Rightarrow> MCPServerConfig option" where
  "mcpServer cfg = (if executionMode cfg = Local then None else mcpServerConfig cfg)"

datatype AnyBuildResult =
    LocalBuild BuildCycleResult
  | RemoteBuild RemoteBuildResult

record CycleResult =
  cycle :: int
  c_success :: bool
  generationResult :: "GenerationResult option"
  buildResult :: "AnyBuildResult option"
  deploymentOutputs :: "outputs option"
  c_error :: "string option"

text \<open>\<open>!buildResult || !buildResult.success\<close>, negated.\<close>

definition buildSucceeded :: "AnyBuildResult option \<Rightarrow> bool" where
  "buildSucceeded b =
     (case b of
        None \<Rightarrow> False
      | Some (LocalBuild r) \<Rightarrow> b_success r
      | Some (RemoteBuild r) \<Rightarrow> rb_success r)"

text \<open>\<open>buildResult?.finalError || buildResult?.error || 'Unknown error'\<close>.\<close>

definition buildErrorText :: "AnyBuildResult option \<Rightarrow> string" where
  "buildErrorText b =
     (case b of
        None \<Rightarrow> ''Unknown error''
      | Some (LocalBuild r) \<Rightarrow> orElse (finalError r) ''Unknown error''
      | Some (RemoteBuild r) \<Rightarrow> orElse (rb_error r) ''Unknown error'')"

text \<open>
  One line of the fix context. A local phase result contributes when its \<open>success\<close> is
  false, with \<open>error || output\<close>. A remote phase result has neither \<open>success\<close> nor
  \<open>error\<close> nor \<open>output\<close>: every recorded remote phase contributes, and the text printed
  is the word undefined.
\<close>

definition fixLine :: "string \<Rightarrow> ExecutionResult option \<Rightarrow> string" where
  "fixLine label r =
     (case r of
        None \<Rightarrow> []
      | Some x \<Rightarrow> if \<not> success x
                  then label @ '' error: '' @ orElse (error x) (output' x) @ nl
                  else [])"

definition fixLineRemote :: "string \<Rightarrow> RemoteResult option \<Rightarrow> string" where
  "fixLineRemote label r =
     (case r of None \<Rightarrow> [] | Some x \<Rightarrow> label @ '' error: undefined'' @ nl)"

definition fixContext :: "AnyBuildResult option \<Rightarrow> string" where
  "fixContext b =
     (case b of
        None \<Rightarrow> []
      | Some (LocalBuild r) \<Rightarrow>
          fixLine ''Build'' (build (b_results r)) @ fixLine ''Synth'' (synth (b_results r))
          @ fixLine ''Lint'' (lint (b_results r)) @ fixLine ''Deploy'' (deploy (b_results r))
      | Some (RemoteBuild r) \<Rightarrow>
          fixLineRemote ''Build'' (build (rb_results r))
          @ fixLineRemote ''Synth'' (synth (rb_results r))
          @ fixLineRemote ''Lint'' (lint (rb_results r))
          @ fixLineRemote ''Deploy'' (deploy (rb_results r)))"

definition generateFixPrompt :: "string \<Rightarrow> AnyBuildResult option \<Rightarrow> string" where
  "generateFixPrompt originalPrompt b =
     originalPrompt @ nl @ nl
     @ ''IMPORTANT: The previous attempt failed with the following errors:'' @ nl
     @ fixContext b @ nl @ nl
     @ ''Please fix these issues and generate corrected code that will build, synth, lint, and deploy successfully.''"

definition generateImprovementPrompt :: "world \<Rightarrow> string \<Rightarrow> outputs \<Rightarrow> string" where
  "generateImprovementPrompt w originalPrompt outs =
     originalPrompt @ nl @ nl
     @ ''The previous deployment was successful but may not fully meet all requirements. '' @ nl
     @ ''Current deployment outputs: '' @ json_stringify w outs @ nl @ nl
     @ ''Please review and improve the infrastructure to better meet the requirements.''"

text \<open>
  The template prints the thrown value itself. Every value thrown in this model is an
  \<open>Error\<close> object (raised by the file system, by the SSH session or by \<open>new Error\<close>),
  kept by its message, and such an object prints as \<open>Error: message\<close>.
\<close>

definition generateErrorRecoveryPrompt :: "string \<Rightarrow> string \<Rightarrow> string" where
  "generateErrorRecoveryPrompt originalPrompt e =
     originalPrompt @ nl @ nl
     @ ''CRITICAL: The previous attempt failed with an unexpected error: Error: '' @ e @ nl @ nl
     @ ''Please generate robust code with proper error handling and validation.''"

definition checkDeploymentExpectations :: "string \<Rightarrow> outputs \<Rightarrow> bool" where
  "checkDeploymentExpectations originalPrompt outs =
     (if length (map fst outs) = 0 then False
      else list_ex (\<lambda>key. str_includes key ''output'' \<or> str_includes key ''stack''
                          \<or> str_includes key ''cfn'')
             (map fst outs))"

text \<open>
  One turn of the \<open>for\<close> loop of \<open>executeAgentCycle\<close>: the \<open>try\<close> block with its
  \<open>catch\<close>.  It gives the record pushed to \<open>results\<close>, the prompt for the next turn,
  whether the loop breaks, and the state.
\<close>

definition freshCycle :: "int \<Rightarrow> CycleResult" where
  "freshCycle c = \<lparr>cycle = c, c_success = False, generationResult = None,
                   buildResult = None, deploymentOutputs = None, c_error = None\<rparr>"

definition cycleContext :: "GenerationRequest \<Rightarrow> int \<Rightarrow> string option" where
  "cycleContext request c =
     (if c > 1
      then Some (''This is cycle '' @ show_int c
                 @ ''. Previous attempts may have failed. Please address any issues and ensure the code works correctly.'')
      else context' request)"

definition deliverFiles ::
  "AgentConfig \<Rightarrow> world \<Rightarrow> files \<Rightarrow> state \<Rightarrow> (string + unit) \<times> state" where
  "deliverFiles cfg w fs s =
     (if executionMode cfg = Local
      then writeGeneratedFiles w (generatorConfig cfg) fs s
      else case mcpServer cfg of
             Some m \<Rightarrow> uploadGeneratedCode w m fs s
           | None \<Rightarrow> (Inr (), s))"

definition runBuild ::
  "AgentConfig \<Rightarrow> world \<Rightarrow> state \<Rightarrow> AnyBuildResult option \<times> state" where
  "runBuild cfg w s =
     (if executionMode cfg = Local
      then (let (r, s') = executeBuildCycle w 3 s in (Some (LocalBuild r), s'))
      else case mcpServer cfg of
             Some m \<Rightarrow> (let (r, s') = executeRemoteBuildCycle w m s in (Some (RemoteBuild r), s'))
           | None \<Rightarrow> (None, s))"

definition collectOutputs :: "AgentConfig \<Rightarrow> world \<Rightarrow> state \<Rightarrow> outputs \<times> state" where
  "collectOutputs cfg w s =
     (case mcpServer cfg of
        Some m \<Rightarrow> downloadDeploymentOutputs w m s
      | None \<Rightarrow> ([], s))"

definition cycleBody ::
  "AgentConfig \<Rightarrow> world \<Rightarrow> GenerationRequest \<Rightarrow> int \<Rightarrow> string \<Rightarrow> state
   \<Rightarrow> CycleResult \<times> string \<times> bool \<times> state" where
  "cycleBody cfg w request c currentPrompt s =
     (let cycleResult = freshCycle c;
          (gen, s1) = generateCDKTFGoCode w
                        \<lparr>prompt = currentPrompt, context' = cycleContext request c\<rparr> s
      in
      if \<not> g_success gen
      then (cycleResult\<lparr>c_error := Some (''Code generation failed: ''
                                           @ (case g_error gen of None \<Rightarrow> ''undefined''
                                                                | Some e \<Rightarrow> e))\<rparr>,
            currentPrompt, False, s1)
      else
      (let cycleResult1 = cycleResult\<lparr>generationResult := Some gen\<rparr>;
           validation = validateGeneratedCode w (files gen)
       in
       if \<not> valid validation
       then (cycleResult1\<lparr>c_error := Some (''Generated code validation failed: ''
                                             @ join '', '' (errors validation))\<rparr>,
             currentPrompt, False, s1)
       else
       (case deliverFiles cfg w (files gen) s1 of
          (Inl e, s2) \<Rightarrow>
            (cycleResult1\<lparr>c_error := Some e\<rparr>,
             if c < maxCycles cfg then generateErrorRecoveryPrompt currentPrompt e
             else currentPrompt,
             False, s2)
        | (Inr _, s2) \<Rightarrow>
       (let (b, s3) = runBuild cfg w s2;
            cycleResult2 = cycleResult1\<lparr>buildResult := b\<rparr>
        in
        if \<not> buildSucceeded b
        then (if c < maxCycles cfg
              then (cycleResult2, generateFixPrompt currentPrompt b, False, s3)
              else (cycleResult2\<lparr>c_error := Some (''Build cycle failed: '' @ buildErrorText b)\<rparr>,
                    currentPrompt, False, s3))
        else
        (let (outs, s4) = collectOutputs cfg w s3;
             cycleResult3 = cycleResult2\<lparr>deploymentOutputs := Some outs, c_success := True\<rparr>;
             expectationsMet = checkDeploymentExpectations (prompt request) outs
         in
         if expectationsMet then (cycleResult3, currentPrompt, True, s4)
         else if c < maxCycles cfg
         then (cycleResult3, generateImprovementPrompt w currentPrompt outs, False, s4)
         else (cycleResult3, currentPrompt, False, s4))))))"

function agentLoop ::
  "AgentConfig \<Rightarrow> world \<Rightarrow> GenerationRequest \<Rightarrow> int \<Rightarrow> string \<Rightarrow> CycleResult list
   \<Rightarrow> state \<Rightarrow> CycleResult list \<times> state" where
  "agentLoop cfg w request c currentPrompt results s =
     (if c \<le> maxCycles cfg
      then (case cycleBody cfg w request c currentPrompt s of
              (cycleResult, nextPrompt, brk, s') \<Rightarrow>
                if brk then (results @ [cycleResult], s')
                else agentLoop cfg w request (c + 1) nextPrompt (results @ [cycleResult]) s')
      else (results, s))"
  by pat_completeness auto
termination
  by (relation "measure (\<lambda>(cfg, w, request, c, currentPrompt, results, s).
                           nat (maxCycles cfg + 1 - c))")
     auto

declare agentLoop.simps [simp del]

definition executeAgentCycle ::
  "AgentConfig \<Rightarrow> world \<Rightarrow> GenerationRequest \<Rightarrow> state
   \<Rightarrow> (string + CycleResult list) \<times> state" where
  "executeAgentCycle cfg w request s =
     bindR (case mcpServer cfg of
              Some m \<Rightarrow> bindR (connect w m s) (\<lambda>_ s1. setupRemoteEnvironment w m s1)
            | None \<Rightarrow> (Inr (), s))
       (\<lambda>_ s2.
          (let (results, s3) = agentLoop cfg w request 1 (prompt request) [] s2;
               s4 = (case mcpServer cfg of Some m \<Rightarrow> disconnect s3 | None \<Rightarrow> s3)
           in (Inr results, s4)))"

section \<open>Reading the trace\<close>

text \<open>
  The events a call added to the trace are the ones after those it started with.
\<close>

definition newEvents :: "state \<Rightarrow> state \<Rightarrow> event list" where
  "newEvents s s' = drop (length (trace s)) (trace s')"

text \<open>
  A command that ran, with whether it succeeded: a local command by its success flag
  (\<open>code === 0\<close> in \<open>executeCommand\<close>), a remote command when the session answered
  with exit code 0 (\<open>result.code === 0\<close>, the test of the log line of
  \<open>executeRemoteCommand\<close>). A remote command that threw, ended with another exit code
  or ended with none did not succeed.
\<close>

fun ran :: "event \<Rightarrow> (string \<times> bool) option" where
  "ran (Exec c ok) = Some (c, ok)"
| "ran (RExec c (SshResult out err rc)) = Some (c, rc = Some 0)"
| "ran (RExec c (SshThrow e)) = Some (c, False)"
| "ran _ = None"

definition succeeded :: "event \<Rightarrow> bool" where
  "succeeded e = (case ran e of Some (c, ok) \<Rightarrow> ok | None \<Rightarrow> False)"

text \<open>
  What the remote pipeline reads of a remote command: it goes on to the next phase
  after a command that returned with \<open>(result.code || 0) === 0\<close>, so a command that
  ended without an exit code is passed like one that ended with 0.
\<close>

definition passed :: "event \<Rightarrow> bool" where
  "passed e =
     (case e of
        RExec c (SshResult out err rc) \<Rightarrow> (case rc of None \<Rightarrow> True | Some i \<Rightarrow> i = 0)
      | _ \<Rightarrow> False)"

text \<open>An event other than a remote command that ended without an exit code.\<close>

definition reportsCode :: "event \<Rightarrow> bool" where
  "reportsCode e = (case e of RExec c (SshResult out err None) \<Rightarrow> False | _ \<Rightarrow> True)"

text \<open>The outcome of the last run of a command among some events, if it ran at all.\<close>

fun lastRun :: "string \<Rightarrow> event list \<Rightarrow> bool option" where
  "lastRun c [] = None"
| "lastRun c (e # es) =
     (case lastRun c es of
        Some b \<Rightarrow> Some b
      | None \<Rightarrow> (case ran e of
                   Some (c', ok) \<Rightarrow> if c' = c then Some ok else None
                 | None \<Rightarrow> None))"

text \<open>
  The four phase commands, and for each the phase that has to have succeeded before it
  may run. An event is allowed after the events \<open>pre\<close> of its pass when it is no phase
  command with a prerequisite, or when the last run of the prerequisite in \<open>pre\<close>
  succeeded. A pass is ordered when each of its events is allowed after the events
  before it.
\<close>

definition phaseCmds :: "string list" where
  "phaseCmds = [''npm run build'', ''npm run synth'', ''npm run lint'', ''npm run deploy'']"

definition prereq :: "string \<Rightarrow> string option" where
  "prereq c =
     (if c = ''npm run synth'' then Some ''npm run build''
      else if c = ''npm run lint'' then Some ''npm run synth''
      else if c = ''npm run deploy'' then Some ''npm run lint''
      else None)"

definition allowed :: "event list \<Rightarrow> event \<Rightarrow> bool" where
  "allowed pre e =
     (case ran e of
        None \<Rightarrow> True
      | Some (c, ok) \<Rightarrow> (case prereq c of None \<Rightarrow> True | Some p \<Rightarrow> lastRun p pre = Some True))"

fun orderedFrom :: "event list \<Rightarrow> event list \<Rightarrow> bool" where
  "orderedFrom pre [] = True"
| "orderedFrom pre (e # es) = (allowed pre e \<and> orderedFrom (pre @ [e]) es)"

definition phaseOrdered :: "event list \<Rightarrow> bool" where
  "phaseOrdered es = orderedFrom [] es"

text \<open>
  After a phase whose last run failed nothing of a later phase ran in the pass.
\<close>

definition stopsAtFailure :: "event list \<Rightarrow> bool" where
  "stopsAtFailure es =
     ((lastRun ''npm run build'' es = Some False \<longrightarrow>
         lastRun ''npm run synth'' es = None \<and> lastRun ''npm run lint'' es = None
         \<and> lastRun ''npm run deploy'' es = None)
      \<and> (lastRun ''npm run synth'' es = Some False \<longrightarrow>
         lastRun ''npm run lint'' es = None \<and> lastRun ''npm run deploy'' es = None)
      \<and> (lastRun ''npm run lint'' es = Some False \<longrightarrow>
         lastRun ''npm run deploy'' es = None))"

text \<open>Events that run no phase command: what the fixers add.\<close>

definition quiet :: "event list \<Rightarrow> bool" where
  "quiet es = list_all (\<lambda>e. case ran e of None \<Rightarrow> True | Some (c, ok) \<Rightarrow> c \<notin> set phaseCmds) es"

text \<open>The events of one phase: runs of the phase's own command and quiet fixer commands,
  the last run of the phase's command having the reported outcome.\<close>

definition phaseSeg :: "string \<Rightarrow> bool \<Rightarrow> event list \<Rightarrow> bool" where
  "phaseSeg c b seg =
     (lastRun c seg = Some b
      \<and> (\<forall>c' \<in> set phaseCmds. c' \<noteq> c \<longrightarrow> lastRun c' seg = None)
      \<and> (\<forall>pre. (case prereq c of None \<Rightarrow> True | Some p \<Rightarrow> lastRun p pre = Some True)
             \<longrightarrow> orderedFrom pre seg))"

text \<open>
  The entries of \<open>results\<close> for build, synth and lint are all there and successful.
\<close>

definition okEntries :: "ExecutionResult Results \<Rightarrow> bool" where
  "okEntries rs =
     (map_option success (build rs) = Some True
      \<and> map_option success (synth rs) = Some True
      \<and> map_option success (lint rs) = Some True)"

text \<open>What a pass reports, read against the events it added.\<close>

definition passReport :: "pass_outcome \<Rightarrow> event list \<Rightarrow> bool" where
  "passReport out es =
     (case out of
        Return r \<Rightarrow>
          b_success r = okEntries (b_results r)
          \<and> (b_success r \<longrightarrow>
                finalError r = None
                \<and> lastRun ''npm run deploy'' es \<noteq> None
                \<and> map_option success (deploy (b_results r)) = lastRun ''npm run deploy'' es)
      | Continue res \<Rightarrow> \<not> okEntries res)"

text \<open>
  A cycle record ends the run: the cycle succeeded and the expectation check accepts
  its deployment outputs (the condition of the \<open>break\<close>).
\<close>

definition stopsRun :: "GenerationRequest \<Rightarrow> CycleResult \<Rightarrow> bool" where
  "stopsRun request r =
     (c_success r
      \<and> (case deploymentOutputs r of
            None \<Rightarrow> False
          | Some outs \<Rightarrow> checkDeploymentExpectations (prompt request) outs))"

text \<open>The commands some events ran, in order.\<close>

definition cmds :: "event list \<Rightarrow> string list" where
  "cmds es = map fst (List.map_filter ran es)"

text \<open>
  The command line the session receives for a phase command, and the events of the
  first \<open>n\<close> phase commands run one after the other from the state \<open>s\<close>, each with what
  the session answers at its moment.
\<close>

definition remoteLine :: "MCPServerConfig \<Rightarrow> string \<Rightarrow> string" where
  "remoteLine cfg c = ''cd '' @ workingDirectory cfg @ '' && '' @ c"

definition phaseEvents :: "world \<Rightarrow> MCPServerConfig \<Rightarrow> state \<Rightarrow> nat \<Rightarrow> event list" where
  "phaseEvents w cfg s n =
     map (\<lambda>i. RExec (phaseCmds ! i)
                 (ssh_execCommand w (clock s + i) (remoteLine cfg (phaseCmds ! i))))
       [0..<n]"

text \<open>The records a run returned; none when it threw.\<close>

definition recordsOf :: "(string + CycleResult list) \<times> state \<Rightarrow> CycleResult list" where
  "recordsOf x = (case fst x of Inl e \<Rightarrow> [] | Inr rs \<Rightarrow> rs)"

text \<open>The prompts sent to the generation service, in order.\<close>

definition prompts :: "event list \<Rightarrow> string list" where
  "prompts es = List.map_filter (\<lambda>e. case e of Generate p c \<Rightarrow> Some p | _ \<Rightarrow> None) es"

text \<open>The phase results recorded in a pipeline result whose \<open>success\<close> is false.\<close>

definition failedPhases :: "BuildCycleResult \<Rightarrow> ExecutionResult list" where
  "failedPhases r =
     filter (\<lambda>x. \<not> success x)
       (List.map_filter id [build (b_results r), synth (b_results r),
                            lint (b_results r), deploy (b_results r)])"

section \<open>Concrete worlds\<close>

text \<open>
  A world in which everything works (paths are joined with a slash and split at their
  last slash), the starting state of a run, and the worlds the examples below run in.
\<close>

definition posixBasename :: "string \<Rightarrow> string" where
  "posixBasename p = rev (takeWhile (\<lambda>c. c \<noteq> CHR ''/'') (rev p))"

definition posixDirname :: "string \<Rightarrow> string" where
  "posixDirname p =
     (let r = dropWhile (\<lambda>c. c \<noteq> CHR ''/'') (rev p)
      in if r = [] then ''.''
         else if drop 1 r = [] then ''/''
         else rev (drop 1 r))"

definition calmWorld :: world where
  "calmWorld =
     \<lparr>spawn = (\<lambda>n c. Closed [] [] (Some 0)),
      llm = (\<lambda>n p c. Inr [(''lib/tap_stack.go'', ''package lib''),
                           (''bin/tap.go'', ''package main''),
                           (''cdk.json'', ''{}'')]),
      fs_ensureDir = (\<lambda>n p. None),
      fs_writeFile = (\<lambda>n p c. None),
      fs_remove = (\<lambda>n p. None),
      fs_readFile = (\<lambda>n p. Inr ''key''),
      ssh_connect = (\<lambda>n k. None),
      ssh_execCommand = (\<lambda>n c. SshResult [] [] (Some 0)),
      ssh_putFile = (\<lambda>n a b. None),
      path_join = (\<lambda>a b. a @ ''/'' @ b),
      path_dirname = posixDirname,
      path_basename = posixBasename,
      json_parses = (\<lambda>t. t = ''{}''),
      json_stringify = (\<lambda>outs. ''{}'')\<rparr>"

definition start :: state where
  "start = \<lparr>clock = 0, connected = False, trace = []\<rparr>"

definition okResult :: ExecutionResult where
  "okResult = \<lparr>success = True, output' = [], error = None, exitCode = 0\<rparr>"


text \<open>A server configuration, and a state whose session is open.\<close>

definition remoteServer :: MCPServerConfig where
  "remoteServer =
     \<lparr>sshConfig = \<lparr>host = ''jump-box'', port = None, username = ''ec2-user'',
                    privateKeyPath = ''/home/me/.ssh/id_rsa'', passphrase = None\<rparr>,
      workingDirectory = ''/home/ec2-user/iac-workspace'',
      githubRepoUrl = ''https://github.com/botcheddevil/iac-gen-go.git'',
      environmentVariables = Some [(''AWS_REGION'', ''us-east-1'')]\<rparr>"

definition online :: state where
  "online = \<lparr>clock = 0, connected = True, trace = []\<rparr>"

text \<open>The synth command fails on both backends, whenever it runs; no fixer matches.\<close>

definition synthBreaksWorld :: world where
  "synthBreaksWorld =
     calmWorld\<lparr>spawn := (\<lambda>n c. if c = ''npm run synth''
                               then Closed [] ''synth broke'' (Some 1)
                               else Closed [] [] (Some 0)),
                ssh_execCommand := (\<lambda>n c.
                   if c = ''cd /home/ec2-user/iac-workspace && npm run synth''
                   then SshResult [] ''synth broke'' (Some 1)
                   else SshResult [] [] (Some 0))\<rparr>"

text \<open>
  The build command is ended by a signal on both backends, whenever it runs: it closes
  with no exit code. Every other command works.
\<close>

definition killedBuildWorld :: world where
  "killedBuildWorld =
     calmWorld\<lparr>spawn := (\<lambda>n c. if c = ''npm run build''
                               then Closed [] ''Killed'' None
                               else Closed [] [] (Some 0)),
                ssh_execCommand := (\<lambda>n c.
                   if c = ''cd /home/ec2-user/iac-workspace && npm run build''
                   then SshResult [] ''Killed'' None
                   else SshResult [] [] (Some 0))\<rparr>"

text \<open>
  The first command of a run fails for a missing module, on both backends; every later
  command works.
\<close>

definition missingModuleWorld :: world where
  "missingModuleWorld =
     calmWorld\<lparr>spawn := (\<lambda>n c. if n = 0
                               then Closed ''Error: Cannot find module aws-sdk'' ''npm ERR! code 1'' (Some 1)
                               else Closed [] [] (Some 0)),
                ssh_execCommand := (\<lambda>n c. if n = 0
                               then SshResult ''Error: Cannot find module aws-sdk'' ''npm ERR! code 1'' (Some 1)
                               else SshResult [] [] (Some 0))\<rparr>"



text \<open>An agent in local mode, the same agent in remote mode, and a request.\<close>

definition localAgent :: AgentConfig where
  "localAgent =
     \<lparr>generatorConfig = \<lparr>anthropicApiKey = ''key'', templatePath = ''templates/cdk-go'',
                          outputPath = ''generated'', repositoryName = ''iac-gen-go''\<rparr>,
      mcpServerConfig = None, maxCycles = 3, executionMode = Local\<rparr>"

definition remoteAgent :: AgentConfig where
  "remoteAgent = localAgent\<lparr>mcpServerConfig := Some remoteServer, executionMode := Remote\<rparr>"

definition bucketRequest :: GenerationRequest where
  "bucketRequest = \<lparr>prompt = ''create a storage bucket'',
                     context' = Some ''Generate production-ready CDKTF Go infrastructure code''\<rparr>"

text \<open>Every remote command loses the connection: the bootstrap of the session throws.\<close>

definition bootstrapFailsWorld :: world where
  "bootstrapFailsWorld = calmWorld\<lparr>ssh_execCommand := (\<lambda>n c. SshThrow ''Connection lost'')\<rparr>"

text \<open>Every upload of a file fails; an agent in remote mode with a single cycle.\<close>

definition uploadFailsWorld :: world where
  "uploadFailsWorld = calmWorld\<lparr>ssh_putFile := (\<lambda>n a b. Some ''No response from server'')\<rparr>"

definition oneRemoteCycle :: AgentConfig where
  "oneRemoteCycle = remoteAgent\<lparr>maxCycles := 1\<rparr>"

text \<open>The generation service leaves out the entry point \<open>bin/tap.go\<close>.\<close>

definition missingEntryWorld :: world where
  "missingEntryWorld =
     calmWorld\<lparr>llm := (\<lambda>n p c. Inr [(''lib/tap_stack.go'', ''package lib''),
                                      (''cdk.json'', ''{}'')])\<rparr>"

text \<open>
  Every build fails, with a compiler message on standard output and a message of the
  package manager on standard error; the result of such a build and of the pipeline
  that meets it three times.
\<close>

definition buildBreaksWorld :: world where
  "buildBreaksWorld =
     calmWorld\<lparr>spawn := (\<lambda>n c. if c = ''npm run build''
                               then Closed ''src/main.go:7: undefined: bucket''
                                           ''npm ERR! build failed'' (Some 2)
                               else Closed [] [] (Some 0))\<rparr>"

definition brokenBuild :: ExecutionResult where
  "brokenBuild = \<lparr>success = False,
                   output' = ''src/main.go:7: undefined: bucketnpm ERR! build failed'',
                   error = Some ''npm ERR! build failed'', exitCode = 2\<rparr>"

definition brokenBuildCycle :: BuildCycleResult where
  "brokenBuildCycle =
     \<lparr>b_success = False,
      b_results = \<lparr>build = Some brokenBuild, synth = None, lint = None, deploy = None\<rparr>,
      finalError = Some ''Build phase failed after all attempts''\<rparr>"

section \<open>The events of a pass of the local pipeline\<close>

lemma lastRun_append:
  "lastRun c (xs @ ys) = (case lastRun c ys of Some b \<Rightarrow> Some b | None \<Rightarrow> lastRun c xs)"
  by (induction xs) (auto split: option.splits)

lemma orderedFrom_append:
  "orderedFrom pre (xs @ ys) = (orderedFrom pre xs \<and> orderedFrom (pre @ xs) ys)"
  by (induction xs arbitrary: pre) auto

lemma quiet_lastRun: "quiet es \<Longrightarrow> c \<in> set phaseCmds \<Longrightarrow> lastRun c es = None"
  by (induction es) (auto simp: quiet_def split: option.splits)

lemma quiet_ordered: "quiet es \<Longrightarrow> orderedFrom pre es"
  by (induction es arbitrary: pre)
     (auto simp: quiet_def allowed_def prereq_def phaseCmds_def split: option.splits)

lemma quiet_append [simp]: "quiet (xs @ ys) = (quiet xs \<and> quiet ys)"
  by (simp add: quiet_def)

lemma executeCommand_trace:
  "executeCommand w c args s = (r, s') \<Longrightarrow>
     trace s' = trace s @ [Exec (join '' '' (c # args)) (success r)]
     \<and> clock s' = Suc (clock s) \<and> connected s' = connected s"
  by (auto simp: executeCommand_def Let_def tick_def)

lemma attemptBuildFix_quiet:
  "attemptBuildFix w r0 s = (fr, s') \<Longrightarrow> \<exists>fs. trace s' = trace s @ fs \<and> quiet fs \<and> connected s' = connected s"
  by (auto simp: attemptBuildFix_def Let_def quiet_def phaseCmds_def
           split: if_splits prod.splits dest!: executeCommand_trace)

lemma attemptSynthFix_quiet:
  "attemptSynthFix w r0 s = (fr, s') \<Longrightarrow> \<exists>fs. trace s' = trace s @ fs \<and> quiet fs \<and> connected s' = connected s"
  by (auto simp: attemptSynthFix_def Let_def quiet_def phaseCmds_def
           split: if_splits prod.splits dest!: executeCommand_trace)

lemma attemptLintFix_quiet:
  "attemptLintFix w r0 s = (fr, s') \<Longrightarrow> \<exists>fs. trace s' = trace s @ fs \<and> quiet fs \<and> connected s' = connected s"
  by (auto simp: attemptLintFix_def Let_def quiet_def phaseCmds_def
           split: if_splits prod.splits dest!: executeCommand_trace)

lemma attemptDeployFix_quiet:
  "attemptDeployFix w r0 s = (fr, s') \<Longrightarrow> \<exists>fs. trace s' = trace s @ fs \<and> quiet fs \<and> connected s' = connected s"
  by (auto simp: attemptDeployFix_def Let_def quiet_def phaseCmds_def
           split: if_splits prod.splits dest!: executeCommand_trace)

lemma runPhase_seg:
  assumes run: "runPhase w script fixer s = (r, s')"
    and fixq: "\<And>r0 s0 fr s1. fixer w r0 s0 = (fr, s1) \<Longrightarrow>
                \<exists>fs. trace s1 = trace s0 @ fs \<and> quiet fs \<and> connected s1 = connected s0"
    and cmd: "''npm run '' @ script \<in> set phaseCmds"
  shows "\<exists>seg. trace s' = trace s @ seg \<and> phaseSeg (''npm run '' @ script) (success r) seg \<and> connected s' = connected s"
proof -
  let ?c = "''npm run '' @ script"
  have j: "join '' '' [''npm'', ''run'', script] = ?c" by simp
  obtain r1 s1 where e1: "executeCommand w ''npm'' [''run'', script] s = (r1, s1)"
    by (cases "executeCommand w ''npm'' [''run'', script] s")
  from executeCommand_trace [OF e1] j
  have t1: "trace s1 = trace s @ [Exec ?c (success r1)]" and c1: "connected s1 = connected s" by auto
  have pq: "\<And>p. prereq ?c = Some p \<Longrightarrow> p \<in> set phaseCmds \<and> p \<noteq> ?c"
    by (auto simp: prereq_def phaseCmds_def split: if_splits)
  show ?thesis
  proof (cases "success r1")
    case True
    with run e1 have "r = r1" "s' = s1" by (auto simp: runPhase_def)
    with t1 c1 True show ?thesis
      by (auto simp: phaseSeg_def allowed_def split: option.splits)
  next
    case False
    obtain fr s2 where e2: "fixer w r1 s1 = (fr, s2)" by (cases "fixer w r1 s1")
    from fixq [OF e2] obtain fs where t2: "trace s2 = trace s1 @ fs" and q: "quiet fs" and c2: "connected s2 = connected s1"
      by auto
    have qn: "\<And>c'. c' \<in> set phaseCmds \<Longrightarrow> lastRun c' fs = None"
      using q quiet_lastRun by blast
    show ?thesis
    proof (cases "success fr")
      case fok: True
      obtain r3 s3 where e3: "executeCommand w ''npm'' [''run'', script] s2 = (r3, s3)"
        by (cases "executeCommand w ''npm'' [''run'', script] s2")
      from executeCommand_trace [OF e3] j
      have t3: "trace s3 = trace s2 @ [Exec ?c (success r3)]" and c3: "connected s3 = connected s2" by auto
      from run e1 e2 e3 False fok have rs: "r = r3" "s' = s3" by (auto simp: runPhase_def)
      have tr: "trace s' = trace s @ (Exec ?c False # fs @ [Exec ?c (success r)])"
        using t1 t2 t3 rs False by simp
      have "phaseSeg ?c (success r) (Exec ?c False # fs @ [Exec ?c (success r)])"
        unfolding phaseSeg_def
      proof (intro conjI ballI impI allI)
        show "lastRun ?c (Exec ?c False # fs @ [Exec ?c (success r)]) = Some (success r)"
          by (simp add: lastRun_append)
      next
        fix c' assume "c' \<in> set phaseCmds" "c' \<noteq> ?c"
        then show "lastRun c' (Exec ?c False # fs @ [Exec ?c (success r)]) = None"
          using qn by (simp add: lastRun_append)
      next
        fix pre
        assume p: "case prereq ?c of None \<Rightarrow> True | Some p \<Rightarrow> lastRun p pre = Some True"
        have a1: "allowed pre (Exec ?c False)" using p by (simp add: allowed_def)
        have a2: "allowed (pre @ Exec ?c False # fs) (Exec ?c (success r))"
          using p pq qn by (auto simp: allowed_def lastRun_append split: option.splits)
        show "orderedFrom pre (Exec ?c False # fs @ [Exec ?c (success r)])"
          using a1 a2 q by (simp add: orderedFrom_append quiet_ordered)
      qed
      with tr c1 c2 c3 rs show ?thesis by auto
    next
      case fno: False
      from run e1 e2 False fno have rs: "r = r1" "s' = s2" by (auto simp: runPhase_def)
      have tr: "trace s' = trace s @ (Exec ?c False # fs)"
        using t1 t2 rs False by simp
      have "phaseSeg ?c (success r) (Exec ?c False # fs)"
        unfolding phaseSeg_def
      proof (intro conjI ballI impI allI)
        show "lastRun ?c (Exec ?c False # fs) = Some (success r)"
          using qn cmd rs False by simp
      next
        fix c' assume "c' \<in> set phaseCmds" "c' \<noteq> ?c"
        then show "lastRun c' (Exec ?c False # fs) = None"
          using qn by simp
      next
        fix pre
        assume p: "case prereq ?c of None \<Rightarrow> True | Some p \<Rightarrow> lastRun p pre = Some True"
        have a1: "allowed pre (Exec ?c False)" using p by (simp add: allowed_def)
        show "orderedFrom pre (Exec ?c False # fs)"
          using a1 q by (simp add: quiet_ordered)
      qed
      with tr c1 c2 rs show ?thesis by auto
    qed
  qed
qed

lemma buildPhase_facts:
  assumes "runPhase w ''build'' attemptBuildFix s = (r, s')"
  shows "\<exists>seg. trace s' = trace s @ seg \<and> connected s' = connected s
      \<and> lastRun ''npm run build'' seg = Some (success r)
      \<and> lastRun ''npm run synth'' seg = None
      \<and> lastRun ''npm run lint'' seg = None
      \<and> lastRun ''npm run deploy'' seg = None
      \<and> (\<forall>pre. orderedFrom pre seg)"
proof -
  have "\<exists>seg. trace s' = trace s @ seg \<and> phaseSeg (''npm run '' @ ''build'') (success r) seg
          \<and> connected s' = connected s"
    by (rule runPhase_seg [OF assms]) (erule attemptBuildFix_quiet, simp add: phaseCmds_def)
  then obtain seg where "trace s' = trace s @ seg" "connected s' = connected s"
    and "phaseSeg (''npm run '' @ ''build'') (success r) seg"
    by auto
  then show ?thesis
    by (intro exI [of _ seg]) (simp add: phaseSeg_def phaseCmds_def prereq_def)
qed

lemma synthPhase_facts:
  assumes "runPhase w ''synth'' attemptSynthFix s = (r, s')"
  shows "\<exists>seg. trace s' = trace s @ seg \<and> connected s' = connected s
      \<and> lastRun ''npm run build'' seg = None
      \<and> lastRun ''npm run synth'' seg = Some (success r)
      \<and> lastRun ''npm run lint'' seg = None
      \<and> lastRun ''npm run deploy'' seg = None
      \<and> (\<forall>pre. lastRun ''npm run build'' pre = Some True \<longrightarrow> orderedFrom pre seg)"
proof -
  have "\<exists>seg. trace s' = trace s @ seg \<and> phaseSeg (''npm run '' @ ''synth'') (success r) seg
          \<and> connected s' = connected s"
    by (rule runPhase_seg [OF assms]) (erule attemptSynthFix_quiet, simp add: phaseCmds_def)
  then obtain seg where "trace s' = trace s @ seg" "connected s' = connected s"
    and "phaseSeg (''npm run '' @ ''synth'') (success r) seg"
    by auto
  then show ?thesis
    by (intro exI [of _ seg]) (simp add: phaseSeg_def phaseCmds_def prereq_def)
qed

lemma lintPhase_facts:
  assumes "runPhase w ''lint'' attemptLintFix s = (r, s')"
  shows "\<exists>seg. trace s' = trace s @ seg \<and> connected s' = connected s
      \<and> lastRun ''npm run build'' seg = None
      \<and> lastRun ''npm run synth'' seg = None
      \<and> lastRun ''npm run lint'' seg = Some (success r)
      \<and> lastRun ''npm run deploy'' seg = None
      \<and> (\<forall>pre. lastRun ''npm run synth'' pre = Some True \<longrightarrow> orderedFrom pre seg)"
proof -
  have "\<exists>seg. trace s' = trace s @ seg \<and> phaseSeg (''npm run '' @ ''lint'') (success r) seg
          \<and> connected s' = connected s"
    by (rule runPhase_seg [OF assms]) (erule attemptLintFix_quiet, simp add: phaseCmds_def)
  then obtain seg where "trace s' = trace s @ seg" "connected s' = connected s"
    and "phaseSeg (''npm run '' @ ''lint'') (success r) seg"
    by auto
  then show ?thesis
    by (intro exI [of _ seg]) (simp add: phaseSeg_def phaseCmds_def prereq_def)
qed

lemma deployPhase_facts:
  assumes "runPhase w ''deploy'' attemptDeployFix s = (r, s')"
  shows "\<exists>seg. trace s' = trace s @ seg \<and> connected s' = connected s
      \<and> lastRun ''npm run build'' seg = None
      \<and> lastRun ''npm run synth'' seg = None
      \<and> lastRun ''npm run lint'' seg = None
      \<and> lastRun ''npm run deploy'' seg = Some (success r)
      \<and> (\<forall>pre. lastRun ''npm run lint'' pre = Some True \<longrightarrow> orderedFrom pre seg)"
proof -
  have "\<exists>seg. trace s' = trace s @ seg \<and> phaseSeg (''npm run '' @ ''deploy'') (success r) seg
          \<and> connected s' = connected s"
    by (rule runPhase_seg [OF assms]) (erule attemptDeployFix_quiet, simp add: phaseCmds_def)
  then obtain seg where "trace s' = trace s @ seg" "connected s' = connected s"
    and "phaseSeg (''npm run '' @ ''deploy'') (success r) seg"
    by auto
  then show ?thesis
    by (intro exI [of _ seg]) (simp add: phaseSeg_def phaseCmds_def prereq_def)
qed

lemma buildPass_events:
  assumes run: "buildPass w m a results s = (out, s')"
  shows "\<exists>es. trace s' = trace s @ es \<and> connected s' = connected s
           \<and> phaseOrdered es \<and> stopsAtFailure es \<and> passReport out es"
proof -
  obtain rb s1 where p1: "runPhase w ''build'' attemptBuildFix s = (rb, s1)"
    by (cases "runPhase w ''build'' attemptBuildFix s")
  from buildPhase_facts [OF p1] obtain B where
    B: "trace s1 = trace s @ B" "connected s1 = connected s"
       "lastRun ''npm run build'' B = Some (success rb)"
       "lastRun ''npm run synth'' B = None" "lastRun ''npm run lint'' B = None"
       "lastRun ''npm run deploy'' B = None" "\<And>pre. orderedFrom pre B"
    by blast
  show ?thesis
  proof (cases "success rb")
    case False
    with run p1 have "s' = s1" and "passReport out B"
      by (auto simp: buildPass_def Let_def passReport_def okEntries_def split: if_splits)
    with B False show ?thesis
      by (intro exI [of _ B]) (simp add: phaseOrdered_def stopsAtFailure_def)
  next
    case bok: True
    obtain rs s2 where p2: "runPhase w ''synth'' attemptSynthFix s1 = (rs, s2)"
      by (cases "runPhase w ''synth'' attemptSynthFix s1")
    from synthPhase_facts [OF p2] obtain S where
      S: "trace s2 = trace s1 @ S" "connected s2 = connected s1"
         "lastRun ''npm run build'' S = None"
         "lastRun ''npm run synth'' S = Some (success rs)" "lastRun ''npm run lint'' S = None"
         "lastRun ''npm run deploy'' S = None"
         "\<And>pre. lastRun ''npm run build'' pre = Some True \<Longrightarrow> orderedFrom pre S"
      by blast
    have oBS: "orderedFrom [] (B @ S)"
      using B S bok by (simp add: orderedFrom_append)
    show ?thesis
    proof (cases "success rs")
      case False
      with run p1 p2 bok have "s' = s2" and "passReport out (B @ S)"
        by (auto simp: buildPass_def Let_def passReport_def okEntries_def split: if_splits)
      with B S bok False oBS show ?thesis
        by (intro exI [of _ "B @ S"])
           (simp add: phaseOrdered_def stopsAtFailure_def lastRun_append)
    next
      case sok: True
      obtain rl s3 where p3: "runPhase w ''lint'' attemptLintFix s2 = (rl, s3)"
        by (cases "runPhase w ''lint'' attemptLintFix s2")
      from lintPhase_facts [OF p3] obtain L where
        L: "trace s3 = trace s2 @ L" "connected s3 = connected s2"
           "lastRun ''npm run build'' L = None"
           "lastRun ''npm run synth'' L = None" "lastRun ''npm run lint'' L = Some (success rl)"
           "lastRun ''npm run deploy'' L = None"
           "\<And>pre. lastRun ''npm run synth'' pre = Some True \<Longrightarrow> orderedFrom pre L"
        by blast
      have oBSL: "orderedFrom [] (B @ S @ L)"
        using oBS B S L sok by (simp add: orderedFrom_append lastRun_append)
      show ?thesis
      proof (cases "success rl")
        case False
        with run p1 p2 p3 bok sok have "s' = s3" and "passReport out (B @ S @ L)"
          by (auto simp: buildPass_def Let_def passReport_def okEntries_def split: if_splits)
        with B S L bok sok False oBSL show ?thesis
          by (intro exI [of _ "B @ S @ L"])
             (simp add: phaseOrdered_def stopsAtFailure_def lastRun_append)
      next
        case lok: True
        obtain rd s4 where p4: "runPhase w ''deploy'' attemptDeployFix s3 = (rd, s4)"
          by (cases "runPhase w ''deploy'' attemptDeployFix s3")
        from deployPhase_facts [OF p4] obtain D where
          D: "trace s4 = trace s3 @ D" "connected s4 = connected s3"
             "lastRun ''npm run build'' D = None"
             "lastRun ''npm run synth'' D = None" "lastRun ''npm run lint'' D = None"
             "lastRun ''npm run deploy'' D = Some (success rd)"
             "\<And>pre. lastRun ''npm run lint'' pre = Some True \<Longrightarrow> orderedFrom pre D"
          by blast
        have oAll: "orderedFrom [] (B @ S @ L @ D)"
          using oBSL B S L D lok by (simp add: orderedFrom_append lastRun_append)
        from run p1 p2 p3 p4 bok sok lok
        have "s' = s4" and "out = Return \<lparr>b_success = True,
              b_results = results\<lparr>build := Some rb, synth := Some rs, lint := Some rl, deploy := Some rd\<rparr>,
              finalError = None\<rparr>"
          by (auto simp: buildPass_def Let_def)
        with B S L D bok sok lok oAll show ?thesis
          by (intro exI [of _ "B @ S @ L @ D"])
             (simp add: phaseOrdered_def stopsAtFailure_def lastRun_append passReport_def
                okEntries_def)
      qed
    qed
  qed
qed


lemma newEvents_append: "trace s' = trace s @ es \<Longrightarrow> newEvents s s' = es"
  by (simp add: newEvents_def)

lemma loop_passes:
  "executeBuildCycle_loop w m a results s = (r, s') \<Longrightarrow>
     \<exists>passes. trace s' = trace s @ concat passes
       \<and> int (length passes) \<le> max 0 (m - a)
       \<and> (\<forall>p \<in> set passes. phaseOrdered p \<and> stopsAtFailure p)"
proof (induction w m a results s rule: executeBuildCycle_loop.induct)
  case (1 w m a results s)
  show ?case
  proof (cases "a < m")
    case False
    with "1.prems" show ?thesis
      by (intro exI [of _ "[]"]) (auto simp: executeBuildCycle_loop.simps [of w m a results s])
  next
    case True
    obtain out s1 where bp: "buildPass w m (a + 1) results s = (out, s1)"
      by (cases "buildPass w m (a + 1) results s")
    from buildPass_events [OF bp] obtain es where
      es: "trace s1 = trace s @ es" "phaseOrdered es" "stopsAtFailure es"
      by blast
    show ?thesis
    proof (cases out)
      case (Return r')
      with "1.prems" True bp have "s' = s1"
        by (simp add: executeBuildCycle_loop.simps [of w m a results s])
      with es True show ?thesis
        by (intro exI [of _ "[es]"]) simp
    next
      case (Continue res)
      with "1.prems" True bp
      have rec: "executeBuildCycle_loop w m (a + 1) res s1 = (r, s')"
        by (simp add: executeBuildCycle_loop.simps [of w m a results s])
      from "1.IH" [OF True bp [symmetric] Continue rec]
      obtain passes where "trace s' = trace s1 @ concat passes"
        "int (length passes) \<le> max 0 (m - (a + 1))"
        "\<forall>p \<in> set passes. phaseOrdered p \<and> stopsAtFailure p"
        by blast
      with es True show ?thesis
        by (intro exI [of _ "es # passes"]) auto
    qed
  qed
qed

lemma newEvents_start [simp]: "newEvents start s' = trace s'"
  by (simp add: newEvents_def start_def)

lemma newEvents_online [simp]: "newEvents online s' = trace s'"
  by (simp add: newEvents_def online_def)


lemma clock_tick [simp]: "clock (tick e s) = Suc (clock s)"
  by (simp add: tick_def)

lemma trace_tick [simp]: "trace (tick e s) = trace s @ [e]"
  by (simp add: tick_def)

lemma connected_tick [simp]: "connected (tick e s) = connected s"
  by (simp add: tick_def)

lemma runPhase_ok:
  "success (toExecutionResult (spawn w (clock s) (''npm run '' @ script))) \<Longrightarrow>
   runPhase w script fixer s =
     (toExecutionResult (spawn w (clock s) (''npm run '' @ script)),
      tick (Exec (''npm run '' @ script) True) s)"
  by (simp add: runPhase_def executeCommand_def Let_def)


section \<open>The events of the remote pipeline\<close>

text \<open>
  With the session open a remote command asks the session once, at the moment of the
  call, and adds that one event; with no session it throws and asks nothing.
\<close>

lemma executeRemoteCommand_connected:
  assumes "connected s"
  shows "executeRemoteCommand w cfg c None s =
     (case ssh_execCommand w (clock s) (remoteLine cfg c) of
        SshThrow e \<Rightarrow> Inl e
      | SshResult out err rc \<Rightarrow>
          Inr \<lparr>stdout = out, stderr = err, code = (case rc of None \<Rightarrow> 0 | Some i \<Rightarrow> i)\<rparr>,
      tick (RExec c (ssh_execCommand w (clock s) (remoteLine cfg c))) s)"
  using assms
  by (simp add: executeRemoteCommand_def remoteLine_def orElse_def Let_def
           split: ssh_outcome.splits)

lemma executeRemoteCommand_offline:
  "\<not> connected s \<Longrightarrow> executeRemoteCommand w cfg c cwd s = (Inl ''SSH not connected'', s)"
  by (simp add: executeRemoteCommand_def)

lemma phaseEvents_simps:
  "phaseEvents w cfg s (Suc 0) =
     [RExec ''npm run build'' (ssh_execCommand w (clock s) (remoteLine cfg ''npm run build''))]"
  "phaseEvents w cfg s (Suc (Suc 0)) = phaseEvents w cfg s (Suc 0) @
     [RExec ''npm run synth'' (ssh_execCommand w (Suc (clock s)) (remoteLine cfg ''npm run synth''))]"
  "phaseEvents w cfg s (Suc (Suc (Suc 0))) = phaseEvents w cfg s (Suc (Suc 0)) @
     [RExec ''npm run lint'' (ssh_execCommand w (Suc (Suc (clock s))) (remoteLine cfg ''npm run lint''))]"
  "phaseEvents w cfg s (Suc (Suc (Suc (Suc 0)))) = phaseEvents w cfg s (Suc (Suc (Suc 0))) @
     [RExec ''npm run deploy''
        (ssh_execCommand w (Suc (Suc (Suc (clock s)))) (remoteLine cfg ''npm run deploy''))]"
  by (simp_all add: phaseEvents_def phaseCmds_def)

lemma not_passed_cases:
  assumes "\<not> passed (RExec c a)"
  obtains (thrown) e where "a = SshThrow e"
        | (failed) out err i where "a = SshResult out err (Some i)" "i \<noteq> 0"
  using assms by (cases a) (auto simp: passed_def split: option.splits)

lemma passed_cases:
  assumes "passed (RExec c a)"
  obtains out err rc where "a = SshResult out err rc" "(case rc of None \<Rightarrow> 0 | Some i \<Rightarrow> i) = (0::int)"
  using assms by (cases a) (auto simp: passed_def split: option.splits)

lemma executeRemoteBuildCycle_events:
  assumes run: "executeRemoteBuildCycle w cfg s = (r, s')" and on: "connected s"
  shows "trace s' = trace s @ newEvents s s' \<and> connected s'
     \<and> clock s' = clock s + length (newEvents s s')
     \<and> 1 \<le> length (newEvents s s') \<and> length (newEvents s s') \<le> 4
     \<and> newEvents s s' = phaseEvents w cfg s (length (newEvents s s'))
     \<and> list_all passed (butlast (newEvents s s'))
     \<and> (length (newEvents s s') < 4 \<longrightarrow> \<not> passed (last (newEvents s s')))
     \<and> rb_success r = (length (newEvents s s') = 4 \<and> passed (last (newEvents s s')))"
proof -
  define a0 where "a0 = ssh_execCommand w (clock s) (remoteLine cfg ''npm run build'')"
  define s1 where "s1 = tick (RExec ''npm run build'' a0) s"
  define a1 where "a1 = ssh_execCommand w (clock s1) (remoteLine cfg ''npm run synth'')"
  define s2 where "s2 = tick (RExec ''npm run synth'' a1) s1"
  define a2 where "a2 = ssh_execCommand w (clock s2) (remoteLine cfg ''npm run lint'')"
  define s3 where "s3 = tick (RExec ''npm run lint'' a2) s2"
  define a3 where "a3 = ssh_execCommand w (clock s3) (remoteLine cfg ''npm run deploy'')"
  define s4 where "s4 = tick (RExec ''npm run deploy'' a3) s3"
  let ?X = "\<lambda>a. case a of SshThrow e \<Rightarrow> Inl e
      | SshResult out err rc \<Rightarrow>
          Inr \<lparr>stdout = out, stderr = err, code = (case rc of None \<Rightarrow> 0 | Some i \<Rightarrow> i)\<rparr>"
  have on1: "connected s1" and on2: "connected s2" and on3: "connected s3" and on4: "connected s4"
    using on by (simp_all add: s1_def s2_def s3_def s4_def)
  have E0: "executeRemoteCommand w cfg ''npm run build'' None s = (?X a0, s1)"
    using on by (simp add: executeRemoteCommand_connected a0_def s1_def)
  have E1: "executeRemoteCommand w cfg ''npm run synth'' None s1 = (?X a1, s2)"
    using on1 by (simp add: executeRemoteCommand_connected a1_def s2_def)
  have E2: "executeRemoteCommand w cfg ''npm run lint'' None s2 = (?X a2, s3)"
    using on2 by (simp add: executeRemoteCommand_connected a2_def s3_def)
  have E3: "executeRemoteCommand w cfg ''npm run deploy'' None s3 = (?X a3, s4)"
    using on3 by (simp add: executeRemoteCommand_connected a3_def s4_def)
  let ?e0 = "RExec ''npm run build'' a0" and ?e1 = "RExec ''npm run synth'' a1"
  and ?e2 = "RExec ''npm run lint'' a2" and ?e3 = "RExec ''npm run deploy'' a3"
  have t1: "trace s1 = trace s @ [?e0]" and t2: "trace s2 = trace s @ [?e0, ?e1]"
    and t3: "trace s3 = trace s @ [?e0, ?e1, ?e2]"
    and t4: "trace s4 = trace s @ [?e0, ?e1, ?e2, ?e3]"
    by (simp_all add: s1_def s2_def s3_def s4_def)
  have c1: "clock s1 = Suc (clock s)" and c2: "clock s2 = Suc (Suc (clock s))"
    and c3: "clock s3 = Suc (Suc (Suc (clock s)))"
    and c4: "clock s4 = Suc (Suc (Suc (Suc (clock s))))"
    by (simp_all add: s1_def s2_def s3_def s4_def)
  have p1: "phaseEvents w cfg s (Suc 0) = [?e0]"
    and p2: "phaseEvents w cfg s (Suc (Suc 0)) = [?e0, ?e1]"
    and p3: "phaseEvents w cfg s (Suc (Suc (Suc 0))) = [?e0, ?e1, ?e2]"
    and p4: "phaseEvents w cfg s (Suc (Suc (Suc (Suc 0)))) = [?e0, ?e1, ?e2, ?e3]"
    by (simp_all add: phaseEvents_simps a0_def a1_def a2_def a3_def c1 c2 c3)
  note unf = executeRemoteBuildCycle_def Let_def remoteCaught_def
  show ?thesis
  proof (cases "passed ?e0")
    case False
    then have "s' = s1 \<and> \<not> rb_success r"
      by (rule not_passed_cases) (use run in \<open>auto simp: unf E0\<close>)
    with False t1 c1 on1 p1 show ?thesis by (simp add: newEvents_def)
  next
    case g0: True
    then obtain o0 r0 k0 where b0: "a0 = SshResult o0 r0 k0"
      "(case k0 of None \<Rightarrow> 0 | Some i \<Rightarrow> i) = (0::int)"
      by (rule passed_cases)
    show ?thesis
    proof (cases "passed ?e1")
      case False
      then have "s' = s2 \<and> \<not> rb_success r"
        by (rule not_passed_cases) (use run b0 in \<open>auto simp: unf E0 E1\<close>)
      with False g0 t2 c2 on2 p2 show ?thesis by (simp add: newEvents_def)
    next
      case g1: True
      then obtain o1 r1 k1 where b1: "a1 = SshResult o1 r1 k1"
        "(case k1 of None \<Rightarrow> 0 | Some i \<Rightarrow> i) = (0::int)"
        by (rule passed_cases)
      show ?thesis
      proof (cases "passed ?e2")
        case False
        then have "s' = s3 \<and> \<not> rb_success r"
          by (rule not_passed_cases) (use run b0 b1 in \<open>auto simp: unf E0 E1 E2\<close>)
        with False g0 g1 t3 c3 on3 p3 show ?thesis by (simp add: newEvents_def)
      next
        case g2: True
        then obtain o2 r2 k2 where b2: "a2 = SshResult o2 r2 k2"
          "(case k2 of None \<Rightarrow> 0 | Some i \<Rightarrow> i) = (0::int)"
          by (rule passed_cases)
        show ?thesis
        proof (cases "passed ?e3")
          case False
          then have "s' = s4 \<and> \<not> rb_success r"
            by (rule not_passed_cases) (use run b0 b1 b2 in \<open>auto simp: unf E0 E1 E2 E3\<close>)
          with False g0 g1 g2 t4 c4 on4 p4 show ?thesis by (simp add: newEvents_def)
        next
          case g3: True
          then obtain o3 r3 k3 where b3: "a3 = SshResult o3 r3 k3"
            "(case k3 of None \<Rightarrow> 0 | Some i \<Rightarrow> i) = (0::int)"
            by (rule passed_cases)
          from run b0 b1 b2 b3 have "s' = s4 \<and> rb_success r"
            by (auto simp: unf E0 E1 E2 E3)
          with g0 g1 g2 g3 t4 c4 on4 p4 show ?thesis by (simp add: newEvents_def)
        qed
      qed
    qed
  qed
qed

text \<open>
  For a remote command that reported an exit code, being passed by the pipeline and
  having succeeded are the same.
\<close>

lemma passed_succeeded_remote:
  "reportsCode (RExec c a) \<Longrightarrow> passed (RExec c a) = succeeded (RExec c a)"
  by (cases a) (auto simp: passed_def succeeded_def reportsCode_def split: option.splits)

lemma passed_succeeded:
  "e \<in> set (phaseEvents w cfg s n) \<Longrightarrow> reportsCode e \<Longrightarrow> passed e = succeeded e"
  by (auto simp: phaseEvents_def passed_succeeded_remote)

lemma executeRemoteBuildCycle_offline:
  "\<not> connected s \<Longrightarrow>
     executeRemoteBuildCycle w cfg s = (remoteCaught ''SSH not connected'', s)"
  by (simp add: executeRemoteBuildCycle_def executeRemoteCommand_offline)

section \<open>The cycles of the agent\<close>

lemma cycleBody_facts:
  assumes "cycleBody cfg w request c p s = (cr, p', brk, s')"
  shows "cycle cr = c \<and> brk = stopsRun request cr"
  using assms unfolding cycleBody_def
  by (auto simp: Let_def freshCycle_def stopsRun_def split: prod.splits if_splits sum.splits)

lemma agentLoop_records:
  "agentLoop cfg w request c p results s = (rs, s') \<Longrightarrow>
     \<exists>new. rs = results @ new
       \<and> int (length new) \<le> max 0 (maxCycles cfg + 1 - c)
       \<and> (\<forall>i<length new. cycle (new ! i) = c + int i)
       \<and> (\<forall>i<length new. stopsRun request (new ! i) \<longrightarrow> Suc i = length new)
       \<and> ((\<forall>r\<in>set new. \<not> stopsRun request r) \<longrightarrow>
             int (length new) = max 0 (maxCycles cfg + 1 - c))"
proof (induction cfg w request c p results s rule: agentLoop.induct)
  case (1 cfg w request c p results s)
  show ?case
  proof (cases "c \<le> maxCycles cfg")
    case False
    with "1.prems" show ?thesis
      by (intro exI [of _ "[]"]) (auto simp: agentLoop.simps [of cfg w request c p results s])
  next
    case True
    obtain cr p' brk s1 where body: "cycleBody cfg w request c p s = (cr, p', brk, s1)"
      by (cases "cycleBody cfg w request c p s") auto
    from cycleBody_facts [OF body] have cyc: "cycle cr = c" and brk: "brk = stopsRun request cr"
      by auto
    show ?thesis
    proof (cases brk)
      case True
      with "1.prems" \<open>c \<le> maxCycles cfg\<close> body have "rs = results @ [cr]"
        by (simp add: agentLoop.simps [of cfg w request c p results s])
      with cyc brk True \<open>c \<le> maxCycles cfg\<close> show ?thesis
        by (intro exI [of _ "[cr]"]) auto
    next
      case False
      with "1.prems" True body
      have rec: "agentLoop cfg w request (c + 1) p' (results @ [cr]) s1 = (rs, s')"
        by (simp add: agentLoop.simps [of cfg w request c p results s])
      from "1.IH" [OF True body [symmetric] refl refl False rec]
      obtain new where new: "rs = (results @ [cr]) @ new"
        "int (length new) \<le> max 0 (maxCycles cfg + 1 - (c + 1))"
        "\<forall>i<length new. cycle (new ! i) = c + 1 + int i"
        "\<forall>i<length new. stopsRun request (new ! i) \<longrightarrow> Suc i = length new"
        "(\<forall>r\<in>set new. \<not> stopsRun request r) \<longrightarrow>
             int (length new) = max 0 (maxCycles cfg + 1 - (c + 1))"
        by blast
      show ?thesis
      proof (intro exI [of _ "cr # new"] conjI allI impI)
        show "rs = results @ cr # new" using new(1) by simp
        show "int (length (cr # new)) \<le> max 0 (maxCycles cfg + 1 - c)"
          using new(2) True by auto
        show "cycle ((cr # new) ! i) = c + int i" if "i < length (cr # new)" for i
          using that new(3) cyc by (cases i) auto
        show "Suc i = length (cr # new)"
          if "i < length (cr # new)" "stopsRun request ((cr # new) ! i)" for i
          using that new(4) brk False by (cases i) auto
        show "int (length (cr # new)) = max 0 (maxCycles cfg + 1 - c)"
          if "\<forall>r\<in>set (cr # new). \<not> stopsRun request r"
          using that new(5) True by auto
      qed
    qed
  qed
qed

lemma executeAgentCycle_Inr:
  "executeAgentCycle cfg w request s = (Inr rs, s') \<Longrightarrow>
     \<exists>s2 s3. agentLoop cfg w request 1 (prompt request) [] s2 = (rs, s3)
       \<and> s' = (case mcpServer cfg of Some m \<Rightarrow> disconnect s3 | None \<Rightarrow> s3)"
  by (auto simp: executeAgentCycle_def bindR_def Let_def
           split: prod.splits sum.splits option.splits)

text \<open>The definitions a run unfolds when it is evaluated in a concrete world.\<close>

lemmas exec_defs =
  executeCommand_def toExecutionResult_def tick_def runPhase_def buildPass_def
  executeBuildCycle_def noResults_def attemptBuildFix_def attemptSynthFix_def
  attemptLintFix_def attemptDeployFix_def outputOrError_def noFix_def

lemmas agent_defs =
  cycleBody_def freshCycle_def cycleContext_def generateCDKTFGoCode_def
  validateGeneratedCode_def present_def requiredFiles_def endsWith_def
  deliverFiles_def runBuild_def collectOutputs_def mcpServer_def buildSucceeded_def
  checkDeploymentExpectations_def buildErrorText_def orElse_def suffix_to_prefix
  generateImprovementPrompt_def generateFixPrompt_def fixContext_def fixLine_def
  generateErrorRecoveryPrompt_def executeAgentCycle_def bindR_def recordsOf_def
  show_int_def show_nat.simps digit_def posixDirname_def posixBasename_def

lemma agentLoop_all:
  "\<forall>c p s. P (fst (cycleBody cfg w request c p s)) \<Longrightarrow>
   agentLoop cfg w request c p results s = (rs, s') \<Longrightarrow>
           \<exists>new. rs = results @ new \<and> (\<forall>r\<in>set new. P r)"
proof (induction cfg w request c p results s rule: agentLoop.induct)
  case (1 cfg w request c p results s)
  show ?case
  proof (cases "c \<le> maxCycles cfg")
    case False
    with "1.prems"(2) show ?thesis
      by (intro exI [of _ "[]"]) (auto simp: agentLoop.simps [of cfg w request c p results s])
  next
    case True
    obtain cr p' brk s1 where b: "cycleBody cfg w request c p s = (cr, p', brk, s1)"
      by (cases "cycleBody cfg w request c p s") auto
    have P: "P cr" using "1.prems"(1) b by (metis fst_conv)
    show ?thesis
    proof (cases brk)
      case True
      with "1.prems"(2) \<open>c \<le> maxCycles cfg\<close> b have "rs = results @ [cr]"
        by (simp add: agentLoop.simps [of cfg w request c p results s])
      with P show ?thesis by (intro exI [of _ "[cr]"]) simp
    next
      case False
      with "1.prems"(2) True b
      have rec: "agentLoop cfg w request (c + 1) p' (results @ [cr]) s1 = (rs, s')"
        by (simp add: agentLoop.simps [of cfg w request c p results s])
      from "1.IH" [OF True b [symmetric] refl refl False "1.prems"(1) rec]
      obtain new where "rs = (results @ [cr]) @ new" "\<forall>r\<in>set new. P r" by blast
      with P show ?thesis by (intro exI [of _ "cr # new"]) simp
    qed
  qed
qed

lemma collectOutputs_local:
  "executionMode cfg = Local \<Longrightarrow> collectOutputs cfg w s = ([], s)"
  by (simp add: collectOutputs_def mcpServer_def)

lemma cycleBody_local:
  assumes loc: "executionMode cfg = Local"
    and "cycleBody cfg w request c p s = (cr, p', brk, s')"
  shows "deploymentOutputs cr = (if c_success cr then Some [] else None)"
  using assms(2) unfolding cycleBody_def
  by (auto simp: Let_def freshCycle_def collectOutputs_local [OF loc]
           split: prod.splits if_splits sum.splits)

lemma local_record_never_stops:
  "deploymentOutputs r = (if c_success r then Some [] else None) \<Longrightarrow> \<not> stopsRun request r"
  by (auto simp: stopsRun_def checkDeploymentExpectations_def split: if_splits)

lemmas remote_defs =
  connect_def disconnect_def executeRemoteCommand_def cloneRepository_def
  installDependencies_def setupEnvironmentVariables_def setupRemoteEnvironment_def
  executeRemoteBuildCycle_def remoteCaught_def downloadDeploymentOutputs_def outputFiles_def
  nl_def dquote_def squote_def

lemma str_includes_sublist: "str_includes s sub = sublist sub s"
  by (induction s) (auto simp: sublist_Cons_right)

lemma valid_iff:
  "valid (validateGeneratedCode w fs) =
     ((\<forall>f\<in>set requiredFiles. present fs f)
      \<and> (\<forall>(filePath, content)\<in>set fs.
            endsWith filePath ''.go'' \<longrightarrow> str_includes content ''package '')
      \<and> (\<forall>content. map_of fs ''cdk.json'' = Some content \<and> content \<noteq> []
            \<longrightarrow> json_parses w content))"
  by (auto simp: validateGeneratedCode_def Let_def split: option.splits if_splits)

lemma sublist_in_left: "sublist t a \<Longrightarrow> sublist t (a @ b)"
  by (meson sublist_append_rightI sublist_order.order.trans)

lemma sublist_in_right: "sublist t b \<Longrightarrow> sublist t (a @ b)"
  by (meson sublist_append_leftI sublist_order.order.trans)

lemma sublist_mid: "sublist t m \<Longrightarrow> sublist t (a @ m @ z)"
  by (blast intro: sublist_in_left sublist_in_right)

lemma sublist_app4:
  "sublist t a \<or> sublist t b \<or> sublist t c \<or> sublist t d \<Longrightarrow> sublist t (a @ b @ c @ d)"
  by (elim disjE) (blast intro: sublist_in_left sublist_in_right)+

lemma fixLine_sublist:
  "\<not> success x \<Longrightarrow> sublist (orElse (error x) (output' x)) (fixLine label (Some x))"
  using sublist_appendI [of "orElse (error x) (output' x)" "label @ '' error: ''" nl]
  by (simp add: fixLine_def)

lemma fixContext_sublist:
  assumes "x \<in> set (failedPhases r)"
  shows "sublist (orElse (error x) (output' x)) (fixContext (Some (LocalBuild r)))"
proof -
  let ?t = "orElse (error x) (output' x)"
  from assms have f: "\<not> success x"
    and "build (b_results r) = Some x \<or> synth (b_results r) = Some x
         \<or> lint (b_results r) = Some x \<or> deploy (b_results r) = Some x"
    by (auto simp: failedPhases_def List.map_filter_simps split: option.splits if_splits)
  then have "sublist ?t (fixLine ''Build'' (build (b_results r)))
       \<or> sublist ?t (fixLine ''Synth'' (synth (b_results r)))
       \<or> sublist ?t (fixLine ''Lint'' (lint (b_results r)))
       \<or> sublist ?t (fixLine ''Deploy'' (deploy (b_results r)))"
    using fixLine_sublist [OF f] by auto
  then show ?thesis
    by (simp add: fixContext_def sublist_app4)
qed

lemma generateFixPrompt_sublist:
  assumes a: "sublist t (fixContext b)"
  shows "sublist t (generateFixPrompt p b)"
proof -
  define pre where
    "pre = p @ nl @ nl @ ''IMPORTANT: The previous attempt failed with the following errors:'' @ nl"
  define post where
    "post = nl @ nl @ ''Please fix these issues and generate corrected code that will build, synth, lint, and deploy successfully.''"
  have "generateFixPrompt p b = pre @ fixContext b @ post"
    by (simp add: generateFixPrompt_def pre_def post_def)
  then show ?thesis
    using sublist_mid [OF a, of pre post] by (simp only:)
qed

lemma stderr_is_the_error_text:
  "ec \<noteq> Some 0 \<Longrightarrow>
     orElse (error (toExecutionResult (Closed out err ec)))
            (output' (toExecutionResult (Closed out err ec)))
       = (if err \<noteq> [] then err else ''Command exited with code '' @ show_code ec)"
  by (simp add: toExecutionResult_def orElse_def)

section \<open>C1: the success flag of the local pipeline and the deployment\<close>





section \<open>C2: the two pipelines on a failing phase\<close>

lemma missingModule_local:
  "executeBuildCycle missingModuleWorld 3 start =
     (\<lparr>b_success = True,
       b_results = \<lparr>build = Some okResult, synth = Some okResult, lint = Some okResult,
                    deploy = Some okResult\<rparr>,
       finalError = None\<rparr>,
      \<lparr>clock = 6, connected = False,
       trace = [Exec ''npm run build'' False, Exec ''npm install'' True,
                Exec ''npm run build'' True, Exec ''npm run synth'' True,
                Exec ''npm run lint'' True, Exec ''npm run deploy'' True]\<rparr>)"
  by code_simp

lemma missingModule_remote:
  "executeRemoteBuildCycle missingModuleWorld remoteServer online =
     (\<lparr>rb_success = False,
       rb_results = \<lparr>build = Some \<lparr>stdout = ''Error: Cannot find module aws-sdk'',
                                     stderr = ''npm ERR! code 1'', code = 1\<rparr>,
                     synth = None, lint = None, deploy = None\<rparr>,
       rb_error = Some ''Remote build failed''\<rparr>,
      \<lparr>clock = 1, connected = True,
       trace = [RExec ''npm run build''
                  (SshResult ''Error: Cannot find module aws-sdk'' ''npm ERR! code 1''
                     (Some 1))]\<rparr>)"
  by code_simp

lemma synthBreaks_remote:
  "executeRemoteBuildCycle synthBreaksWorld remoteServer online =
     (\<lparr>rb_success = False,
       rb_results = \<lparr>build = Some \<lparr>stdout = [], stderr = [], code = 0\<rparr>,
                     synth = Some \<lparr>stdout = [], stderr = ''synth broke'', code = 1\<rparr>,
                     lint = None, deploy = None\<rparr>,
       rb_error = Some ''Remote synth failed''\<rparr>,
      \<lparr>clock = 2, connected = True,
       trace = [RExec ''npm run build'' (SshResult [] [] (Some 0)),
                RExec ''npm run synth'' (SshResult [] ''synth broke'' (Some 1))]\<rparr>)"
  by code_simp

text \<open>
  C2, as stated: on a phase failure the remote pipeline, like the local one, consults
  the error classifier, runs the remedy, re-runs the phase and restarts the pass. This
  fails: where the first build fails for a missing module, the local pipeline installs
  the dependencies, builds again and succeeds, while the remote pipeline stops after the
  one failed build command and reports failure.
\<close>

theorem remote_pipeline_runs_no_remedy:
  "b_success (fst (executeBuildCycle missingModuleWorld 3 start))
   \<and> cmds (trace (snd (executeBuildCycle missingModuleWorld 3 start)))
       = [''npm run build'', ''npm install'', ''npm run build'', ''npm run synth'',
          ''npm run lint'', ''npm run deploy'']
   \<and> \<not> rb_success (fst (executeRemoteBuildCycle missingModuleWorld remoteServer online))
   \<and> cmds (trace (snd (executeRemoteBuildCycle missingModuleWorld remoteServer online)))
       = [''npm run build'']"
  by (simp add: missingModule_local missingModule_remote cmds_def List.map_filter_simps)

text \<open>
  C2, amended: the two pipelines are not uniform; only the local one consults the
  classifier, runs remedies and restarts. The remote pipeline makes a single pass with
  no classifier and no retry. In every run of it in which each command that ended
  reported an exit code, and with the session open: the events it adds are exactly the
  first \<open>n\<close> of the commands build, synth, lint, deploy, for some \<open>n\<close> from 1 to 4, each
  run once, in this order, with nothing between or after them; every command before
  the last succeeded (exit code 0); when fewer than four ran the last one did not
  succeed (it threw or reported a non-zero code), so the pass stops at the first such
  command and never goes on after it; and it reports success exactly when all four
  ran and each ended with exit code 0. With no open session it runs nothing and
  reports failure.
\<close>

theorem executeRemoteBuildCycle_single_pass:
  assumes run: "executeRemoteBuildCycle w cfg s = (r, s')"
    and codes: "list_all reportsCode (newEvents s s')"
  shows "if connected s
     then 1 \<le> length (newEvents s s') \<and> length (newEvents s s') \<le> 4
          \<and> newEvents s s' = phaseEvents w cfg s (length (newEvents s s'))
          \<and> list_all succeeded (butlast (newEvents s s'))
          \<and> (length (newEvents s s') < 4 \<longrightarrow> \<not> succeeded (last (newEvents s s')))
          \<and> rb_success r
              = (length (newEvents s s') = 4 \<and> list_all succeeded (newEvents s s'))
     else newEvents s s' = [] \<and> \<not> rb_success r"
proof (cases "connected s")
  case False
  with run have "r = remoteCaught ''SSH not connected''" "s' = s"
    by (simp_all add: executeRemoteBuildCycle_offline)
  with False show ?thesis by (simp add: newEvents_def remoteCaught_def)
next
  case True
  let ?es = "newEvents s s'"
  from executeRemoteBuildCycle_events [OF run True]
  have n: "1 \<le> length ?es" "length ?es \<le> 4"
    and es: "?es = phaseEvents w cfg s (length ?es)"
    and before: "list_all passed (butlast ?es)"
    and stop: "length ?es < 4 \<longrightarrow> \<not> passed (last ?es)"
    and flag: "rb_success r = (length ?es = 4 \<and> passed (last ?es))"
    by blast+
  have same: "passed e = succeeded e" if "e \<in> set ?es" for e
  proof -
    from that es have "e \<in> set (phaseEvents w cfg s (length ?es))" by simp
    moreover from that codes have "reportsCode e" by (simp add: list_all_iff)
    ultimately show ?thesis by (rule passed_succeeded)
  qed
  from n have ne: "?es \<noteq> []" by auto
  then have l: "last ?es \<in> set ?es" by simp
  have b: "list_all succeeded (butlast ?es)"
    using before same by (auto simp: list_all_iff dest: in_set_butlastD)
  have all: "list_all succeeded ?es = succeeded (last ?es)"
  proof -
    have "list_all succeeded ?es = list_all succeeded (butlast ?es @ [last ?es])"
      using ne by simp
    with b show ?thesis by (simp del: append_butlast_last_id)
  qed
  from True n es b stop flag same [OF l] all show ?thesis by simp
qed

theorem executeRemoteBuildCycle_single_pass_witness:
  "executeRemoteBuildCycle synthBreaksWorld remoteServer online =
     (\<lparr>rb_success = False,
       rb_results = \<lparr>build = Some \<lparr>stdout = [], stderr = [], code = 0\<rparr>,
                     synth = Some \<lparr>stdout = [], stderr = ''synth broke'', code = 1\<rparr>,
                     lint = None, deploy = None\<rparr>,
       rb_error = Some ''Remote synth failed''\<rparr>,
      \<lparr>clock = 2, connected = True,
       trace = [RExec ''npm run build'' (SshResult [] [] (Some 0)),
                RExec ''npm run synth'' (SshResult [] ''synth broke'' (Some 1))]\<rparr>)
   \<and> connected online
   \<and> list_all reportsCode
        [RExec ''npm run build'' (SshResult [] [] (Some 0)),
         RExec ''npm run synth'' (SshResult [] ''synth broke'' (Some 1))]
   \<and> phaseEvents synthBreaksWorld remoteServer online 2
       = [RExec ''npm run build'' (SshResult [] [] (Some 0)),
          RExec ''npm run synth'' (SshResult [] ''synth broke'' (Some 1))]
   \<and> succeeded (RExec ''npm run build'' (SshResult [] [] (Some 0)))
   \<and> \<not> succeeded (RExec ''npm run synth'' (SshResult [] ''synth broke'' (Some 1)))"
proof -
  let ?es = "[RExec ''npm run build'' (SshResult [] [] (Some 0)),
              RExec ''npm run synth'' (SshResult [] ''synth broke'' (Some 1))]"
  let ?s' = "\<lparr>clock = 2, connected = True, trace = ?es\<rparr>"
  have ev: "newEvents online ?s' = ?es"
    by (simp add: newEvents_def online_def)
  have codes: "list_all reportsCode (newEvents online ?s')"
    unfolding ev by (simp add: reportsCode_def)
  have on: "connected online"
    by (simp add: online_def)
  note run = executeRemoteBuildCycle_single_pass
                [OF synthBreaks_remote codes, unfolded if_P [OF on]]
  note parts = run [THEN conjunct2, THEN conjunct2, THEN conjunct1]
    run [THEN conjunct2, THEN conjunct2, THEN conjunct2, THEN conjunct1]
    run [THEN conjunct2, THEN conjunct2, THEN conjunct2, THEN conjunct2, THEN conjunct1]
  from parts(1) [unfolded ev]
  have 1: "phaseEvents synthBreaksWorld remoteServer online 2 = ?es"
    by (simp add: numeral_2_eq_2)
  from parts(2) [unfolded ev]
  have 2: "succeeded (RExec ''npm run build'' (SshResult [] [] (Some 0)))"
    by simp
  from parts(3) [unfolded ev]
  have 3: "\<not> succeeded (RExec ''npm run synth'' (SshResult [] ''synth broke'' (Some 1)))"
    by simp
  from 1 2 3 synthBreaks_remote on codes [unfolded ev] show ?thesis
    by simp
qed

section \<open>C3: the order of the phases within a pass\<close>

text \<open>
  The local pipeline keeps the order in every pass: \<open>buildPass\<close> is the body of its
  loop, and the events of a whole invocation split into at most \<open>maxAttempts\<close> such
  passes. There a command that closes with no exit code has failed
  (\<open>success = code === 0\<close>).
\<close>

lemma local_phases_in_order:
  "(buildPass w maxAttempts attempt results s = (out, s1) \<longrightarrow>
      phaseOrdered (newEvents s s1) \<and> stopsAtFailure (newEvents s s1))
   \<and> (executeBuildCycle w maxAttempts s = (r, s2) \<longrightarrow>
        (\<exists>passes. newEvents s s2 = concat passes
           \<and> int (length passes) \<le> max 0 maxAttempts
           \<and> (\<forall>p \<in> set passes. phaseOrdered p \<and> stopsAtFailure p)))"
proof (intro conjI impI)
  assume "buildPass w maxAttempts attempt results s = (out, s1)"
  from buildPass_events [OF this]
  show "phaseOrdered (newEvents s s1)" "stopsAtFailure (newEvents s s1)"
    by (auto simp: newEvents_def)
next
  assume "executeBuildCycle w maxAttempts s = (r, s2)"
  from loop_passes [OF this [unfolded executeBuildCycle_def]]
  show "\<exists>passes. newEvents s s2 = concat passes
           \<and> int (length passes) \<le> max 0 maxAttempts
           \<and> (\<forall>p \<in> set passes. phaseOrdered p \<and> stopsAtFailure p)"
    by (auto simp: newEvents_def)
qed

lemma killedBuild_local:
  "executeBuildCycle killedBuildWorld 3 start =
     (\<lparr>b_success = False,
       b_results = \<lparr>build = Some \<lparr>success = False, output' = ''Killed'',
                                     error = Some ''Killed'', exitCode = 0\<rparr>,
                    synth = None, lint = None, deploy = None\<rparr>,
       finalError = Some ''Build phase failed after all attempts''\<rparr>,
      \<lparr>clock = 3, connected = False,
       trace = [Exec ''npm run build'' False, Exec ''npm run build'' False,
                Exec ''npm run build'' False]\<rparr>)"
  by code_simp

lemma killedBuild_remote:
  "executeRemoteBuildCycle killedBuildWorld remoteServer online =
     (\<lparr>rb_success = True,
       rb_results = \<lparr>build = Some \<lparr>stdout = [], stderr = ''Killed'', code = 0\<rparr>,
                     synth = Some \<lparr>stdout = [], stderr = [], code = 0\<rparr>,
                     lint = Some \<lparr>stdout = [], stderr = [], code = 0\<rparr>,
                     deploy = Some \<lparr>stdout = [], stderr = [], code = 0\<rparr>\<rparr>,
       rb_error = None\<rparr>,
      \<lparr>clock = 4, connected = True,
       trace = [RExec ''npm run build'' (SshResult [] ''Killed'' None),
                RExec ''npm run synth'' (SshResult [] [] (Some 0)),
                RExec ''npm run lint'' (SshResult [] [] (Some 0)),
                RExec ''npm run deploy'' (SshResult [] [] (Some 0))]\<rparr>)"
  by code_simp

text \<open>
  C3: within a pass the Deploy command runs only after Lint succeeded in that pass, Lint
  only after Synth succeeded, Synth only after Build succeeded, and after an unrecovered
  failure of a phase no later phase runs in the pass. The remote pipeline breaks this
  where a command ends with no exit code: \<open>executeRemoteCommand\<close> logs such a command
  as failed (its test is \<open>result.code === 0\<close>) but returns \<open>result.code || 0\<close>, and the
  pipeline, which stops on \<open>code !== 0\<close>, reads the 0. With a build command ended by a
  signal the remote pass runs Synth, Lint and Deploy after the failed Build and reports
  success; the local pipeline in the same situation runs nothing but the build command
  and reports failure.
\<close>

theorem remote_phases_run_after_a_killed_build:
  "executeRemoteBuildCycle killedBuildWorld remoteServer online =
     (\<lparr>rb_success = True,
       rb_results = \<lparr>build = Some \<lparr>stdout = [], stderr = ''Killed'', code = 0\<rparr>,
                     synth = Some \<lparr>stdout = [], stderr = [], code = 0\<rparr>,
                     lint = Some \<lparr>stdout = [], stderr = [], code = 0\<rparr>,
                     deploy = Some \<lparr>stdout = [], stderr = [], code = 0\<rparr>\<rparr>,
       rb_error = None\<rparr>,
      \<lparr>clock = 4, connected = True,
       trace = [RExec ''npm run build'' (SshResult [] ''Killed'' None),
                RExec ''npm run synth'' (SshResult [] [] (Some 0)),
                RExec ''npm run lint'' (SshResult [] [] (Some 0)),
                RExec ''npm run deploy'' (SshResult [] [] (Some 0))]\<rparr>)
   \<and> lastRun ''npm run build''
         (trace (snd (executeRemoteBuildCycle killedBuildWorld remoteServer online)))
       = Some False
   \<and> cmds (trace (snd (executeRemoteBuildCycle killedBuildWorld remoteServer online)))
       = [''npm run build'', ''npm run synth'', ''npm run lint'', ''npm run deploy'']
   \<and> \<not> phaseOrdered
          (trace (snd (executeRemoteBuildCycle killedBuildWorld remoteServer online)))
   \<and> \<not> b_success (fst (executeBuildCycle killedBuildWorld 3 start))
   \<and> cmds (trace (snd (executeBuildCycle killedBuildWorld 3 start)))
       = [''npm run build'', ''npm run build'', ''npm run build'']"
  by (simp add: killedBuild_remote killedBuild_local cmds_def List.map_filter_simps
        phaseOrdered_def allowed_def prereq_def)

section \<open>C4: the records of a run\<close>

lemma calm_remote_run:
  "fst (executeAgentCycle remoteAgent calmWorld bucketRequest start)
     = Inr (recordsOf (executeAgentCycle remoteAgent calmWorld bucketRequest start))"
  by code_simp

lemma calm_remote_cycles:
  "map cycle (recordsOf (executeAgentCycle remoteAgent calmWorld bucketRequest start)) = [1]"
  by code_simp

lemma calm_remote_stops:
  "map (stopsRun bucketRequest)
     (recordsOf (executeAgentCycle remoteAgent calmWorld bucketRequest start)) = [True]"
  by code_simp

text \<open>
  C4: when \<open>executeAgentCycle\<close> returns with \<open>maxCycles\<close> at least 1, it returns at
  least one and at most \<open>maxCycles\<close> records, the record at position \<open>i\<close> (from 0)
  carries the cycle index \<open>i + 1\<close>, and the run stops at the first cycle that
  terminates it successfully: a record that ends the run (its cycle succeeded and the
  expectation check accepted its deployment outputs) is the last one, and when no
  record ends the run there are exactly \<open>maxCycles\<close> of them.
\<close>

theorem executeAgentCycle_records:
  assumes run: "executeAgentCycle cfg w request s = (Inr rs, s')"
    and budget: "1 \<le> maxCycles cfg"
  shows "rs \<noteq> [] \<and> int (length rs) \<le> maxCycles cfg
     \<and> (\<forall>i<length rs. cycle (rs ! i) = int i + 1)
     \<and> (\<forall>i<length rs. stopsRun request (rs ! i) \<longrightarrow> Suc i = length rs)
     \<and> ((\<forall>r\<in>set rs. \<not> stopsRun request r) \<longrightarrow> int (length rs) = maxCycles cfg)"
proof -
  from executeAgentCycle_Inr [OF run] obtain s2 s3 where
    "agentLoop cfg w request 1 (prompt request) [] s2 = (rs, s3)" by blast
  from agentLoop_records [OF this] budget
  have a: "int (length rs) \<le> maxCycles cfg"
    and b: "\<forall>i<length rs. cycle (rs ! i) = 1 + int i"
    and c: "\<forall>i<length rs. stopsRun request (rs ! i) \<longrightarrow> Suc i = length rs"
    and d: "(\<forall>r\<in>set rs. \<not> stopsRun request r) \<longrightarrow> int (length rs) = maxCycles cfg"
    by auto
  have "rs \<noteq> []"
  proof
    assume "rs = []"
    with d budget show False by auto
  qed
  with a b c d show ?thesis by (auto simp: add.commute)
qed

theorem executeAgentCycle_records_witness:
  "fst (executeAgentCycle remoteAgent calmWorld bucketRequest start)
     = Inr (recordsOf (executeAgentCycle remoteAgent calmWorld bucketRequest start))
   \<and> 1 \<le> maxCycles remoteAgent
   \<and> map cycle (recordsOf (executeAgentCycle remoteAgent calmWorld bucketRequest start)) = [1]
   \<and> map (stopsRun bucketRequest)
        (recordsOf (executeAgentCycle remoteAgent calmWorld bucketRequest start)) = [True]
   \<and> int (length (recordsOf (executeAgentCycle remoteAgent calmWorld bucketRequest start)))
        \<le> maxCycles remoteAgent"
proof -
  let ?X = "executeAgentCycle remoteAgent calmWorld bucketRequest start"
  have run: "?X = (Inr (recordsOf ?X), snd ?X)"
    using calm_remote_run by (metis prod.collapse)
  have budget: "1 \<le> maxCycles remoteAgent"
    by (simp add: remoteAgent_def localAgent_def)
  from executeAgentCycle_records [OF run budget]
  have "int (length (recordsOf ?X)) \<le> maxCycles remoteAgent" by blast
  with calm_remote_run calm_remote_cycles calm_remote_stops budget show ?thesis
    by simp
qed

section \<open>C5: the expectation check\<close>

lemma calm_remote_body:
  "fst (snd (snd (cycleBody remoteAgent calmWorld bucketRequest 1 (prompt bucketRequest) online)))
   \<and> stopsRun bucketRequest
        (fst (cycleBody remoteAgent calmWorld bucketRequest 1 (prompt bucketRequest) online))"
  by (simp add: agent_defs remote_defs Let_def calmWorld_def stopsRun_def
        remoteAgent_def localAgent_def remoteServer_def bucketRequest_def online_def tick_def)

text \<open>
  C5, as stated: the check returns true for the outputs \<open>{bucketName: "my-app-storage"}\<close>
  (and the run then ends after one cycle). This fails: the key \<open>bucketName\<close> contains
  none of the three substrings the check looks for, so it returns false.
\<close>

theorem bucketName_is_not_accepted:
  "checkDeploymentExpectations ''create a storage bucket''
     [(''bucketName'', ''my-app-storage'')] = False"
  by (simp add: checkDeploymentExpectations_def)

text \<open>
  C5, amended: \<open>checkDeploymentExpectations\<close> returns false for the empty mapping, and
  returns true exactly when some output key contains \<open>output\<close>, \<open>stack\<close> or \<open>cfn\<close> as a
  substring. For \<open>{bucketName: "my-app-storage"}\<close> it returns false. A cycle ends the
  run exactly when it succeeded and the check returns true on its deployment outputs.
\<close>

theorem checkDeploymentExpectations_keys:
  "checkDeploymentExpectations p [] = False
   \<and> checkDeploymentExpectations p outs
       = (\<exists>key \<in> fst ` set outs.
            sublist ''output'' key \<or> sublist ''stack'' key \<or> sublist ''cfn'' key)
   \<and> checkDeploymentExpectations p [(''bucketName'', ''my-app-storage'')] = False
   \<and> (cycleBody cfg w request c currentPrompt s = (cr, nextPrompt, brk, s') \<longrightarrow>
        brk = stopsRun request cr)"
proof (intro conjI impI)
  show "checkDeploymentExpectations p [] = False"
    by (simp add: checkDeploymentExpectations_def)
  show "checkDeploymentExpectations p outs
       = (\<exists>key \<in> fst ` set outs.
            sublist ''output'' key \<or> sublist ''stack'' key \<or> sublist ''cfn'' key)"
    by (auto simp: checkDeploymentExpectations_def list_ex_iff str_includes_sublist)
  show "checkDeploymentExpectations p [(''bucketName'', ''my-app-storage'')] = False"
    by (simp add: checkDeploymentExpectations_def)
  show "brk = stopsRun request cr"
    if "cycleBody cfg w request c currentPrompt s = (cr, nextPrompt, brk, s')"
    using cycleBody_facts [OF that] by simp
qed

theorem checkDeploymentExpectations_keys_witness:
  "fst (snd (snd (cycleBody remoteAgent calmWorld bucketRequest 1 (prompt bucketRequest) online)))
   \<and> stopsRun bucketRequest
        (fst (cycleBody remoteAgent calmWorld bucketRequest 1 (prompt bucketRequest) online))
   \<and> checkDeploymentExpectations (prompt bucketRequest) [(''cdk-stacks.json'', ''{}'')]
   \<and> sublist ''stack'' ''cdk-stacks.json''"
proof -
  let ?X = "cycleBody remoteAgent calmWorld bucketRequest 1 (prompt bucketRequest) online"
  have x: "?X = (fst ?X, fst (snd ?X), fst (snd (snd ?X)), snd (snd (snd ?X)))" by simp
  from checkDeploymentExpectations_keys
         [of "prompt bucketRequest" "[(''cdk-stacks.json'', ''{}'')]" remoteAgent calmWorld
             bucketRequest 1 "prompt bucketRequest" online
             "fst ?X" "fst (snd ?X)" "fst (snd (snd ?X))" "snd (snd (snd ?X))"] x
  have a: "fst (snd (snd ?X)) = stopsRun bucketRequest (fst ?X)"
    and b: "checkDeploymentExpectations (prompt bucketRequest) [(''cdk-stacks.json'', ''{}'')]
       = (\<exists>key \<in> fst ` set [(''cdk-stacks.json'', ''{}'')].
            sublist ''output'' key \<or> sublist ''stack'' key \<or> sublist ''cfn'' key)"
    by blast+
  have c: "sublist ''stack'' ''cdk-stacks.json''"
    using sublist_appendI [of "''stack''" "''cdk-''" "''s.json''"] by simp
  with a b calm_remote_body show ?thesis by simp
qed

section \<open>C6: the prompt after a failed pipeline\<close>

lemma buildBreaks_records:
  "fst (executeAgentCycle localAgent buildBreaksWorld bucketRequest start)
     = Inr (recordsOf (executeAgentCycle localAgent buildBreaksWorld bucketRequest start))
   \<and> map buildResult (recordsOf (executeAgentCycle localAgent buildBreaksWorld bucketRequest start))
       = [Some (LocalBuild brokenBuildCycle), Some (LocalBuild brokenBuildCycle),
          Some (LocalBuild brokenBuildCycle)]"
  by (simp add: agent_defs exec_defs Let_def agentLoop.simps executeBuildCycle_loop.simps
        buildBreaksWorld_def calmWorld_def localAgent_def bucketRequest_def start_def
        brokenBuildCycle_def brokenBuild_def)

lemma buildBreaks_prompts:
  "prompts (trace (snd (executeAgentCycle localAgent buildBreaksWorld bucketRequest start)))
     = [prompt bucketRequest,
        generateFixPrompt (prompt bucketRequest) (Some (LocalBuild brokenBuildCycle)),
        generateFixPrompt
          (generateFixPrompt (prompt bucketRequest) (Some (LocalBuild brokenBuildCycle)))
          (Some (LocalBuild brokenBuildCycle))]"
  by (simp add: agent_defs exec_defs Let_def agentLoop.simps executeBuildCycle_loop.simps
        buildBreaksWorld_def calmWorld_def localAgent_def bucketRequest_def start_def
        brokenBuildCycle_def brokenBuild_def prompts_def List.map_filter_simps)

lemma fix_prompt_text:
  "generateFixPrompt (prompt bucketRequest) (Some (LocalBuild brokenBuildCycle))
     = ''create a storage bucket'' @ nl @ nl
       @ ''IMPORTANT: The previous attempt failed with the following errors:'' @ nl
       @ ''Build error: npm ERR! build failed'' @ nl @ nl @ nl
       @ ''Please fix these issues and generate corrected code that will build, synth, lint, and deploy successfully.''"
  by (simp add: generateFixPrompt_def fixContext_def fixLine_def orElse_def
        brokenBuildCycle_def brokenBuild_def bucketRequest_def)

lemma buildBreaks_body:
  "buildResult (fst (cycleBody localAgent buildBreaksWorld bucketRequest 1
                       (prompt bucketRequest) start))
     = Some (LocalBuild brokenBuildCycle)"
  by (simp add: agent_defs exec_defs Let_def executeBuildCycle_loop.simps
        buildBreaksWorld_def calmWorld_def localAgent_def bucketRequest_def start_def
        brokenBuildCycle_def brokenBuild_def)

text \<open>
  C6, as stated: after a failed pipeline the next prompt is the original prompt with the
  captured combined output of every failed phase appended verbatim, appended to the
  original prompt and not to an accumulated one. This fails twice where every build
  fails with a message on standard output and another on standard error: the prompt of
  cycle 2 does not contain the combined output of the failed build (it carries the
  standard error only), and the prompt of cycle 3 is the prompt of cycle 2 with a second
  fix block appended, not the original prompt with one.
\<close>

theorem fix_prompt_accumulates_and_omits_stdout:
  "map buildResult (recordsOf (executeAgentCycle localAgent buildBreaksWorld bucketRequest start))
     = [Some (LocalBuild brokenBuildCycle), Some (LocalBuild brokenBuildCycle),
        Some (LocalBuild brokenBuildCycle)]
   \<and> output' brokenBuild = ''src/main.go:7: undefined: bucketnpm ERR! build failed''
   \<and> \<not> str_includes
         (prompts (trace (snd (executeAgentCycle localAgent buildBreaksWorld bucketRequest start))) ! 1)
         (output' brokenBuild)
   \<and> prompts (trace (snd (executeAgentCycle localAgent buildBreaksWorld bucketRequest start))) ! 2
       = generateFixPrompt
           (generateFixPrompt (prompt bucketRequest) (Some (LocalBuild brokenBuildCycle)))
           (Some (LocalBuild brokenBuildCycle))
   \<and> prompts (trace (snd (executeAgentCycle localAgent buildBreaksWorld bucketRequest start))) ! 2
       \<noteq> generateFixPrompt (prompt bucketRequest) (Some (LocalBuild brokenBuildCycle))"
proof -
  have a: "\<not> str_includes
             (generateFixPrompt (prompt bucketRequest) (Some (LocalBuild brokenBuildCycle)))
             (output' brokenBuild)"
    by (simp add: fix_prompt_text nl_def brokenBuild_def)
  have b: "generateFixPrompt
             (generateFixPrompt (prompt bucketRequest) (Some (LocalBuild brokenBuildCycle)))
             (Some (LocalBuild brokenBuildCycle))
           \<noteq> generateFixPrompt (prompt bucketRequest) (Some (LocalBuild brokenBuildCycle))"
    by (simp add: generateFixPrompt_def)
  from a b show ?thesis
    by (simp add: buildBreaks_records buildBreaks_prompts brokenBuild_def)
qed

text \<open>
  C6, amended: when the local pipeline of a cycle fails and cycles remain, the prompt of
  the next cycle is the current prompt of the failing cycle (the original prompt in
  cycle 1, the accumulated one later) followed by the fix block: a fixed heading, one
  line per phase whose recorded result failed, and a fixed closing request. Each such
  line carries the phase's error text \<open>error || output\<close>, which appears verbatim in the
  next prompt; for a command that closed with a non-zero code this text is its standard
  error, or \<open>Command exited with code N\<close> when that is empty, not the combined output.
  The loop continues with this prompt.
\<close>

theorem failed_build_feeds_the_next_prompt:
  assumes body: "cycleBody cfg w request c currentPrompt s = (cr, nextPrompt, brk, s')"
    and built: "buildResult cr = Some (LocalBuild r)"
    and failed: "\<not> b_success r"
    and budget: "c < maxCycles cfg"
  shows "nextPrompt = currentPrompt @ nl @ nl
           @ ''IMPORTANT: The previous attempt failed with the following errors:'' @ nl
           @ fixContext (Some (LocalBuild r)) @ nl @ nl
           @ ''Please fix these issues and generate corrected code that will build, synth, lint, and deploy successfully.''
     \<and> (\<forall>x\<in>set (failedPhases r). sublist (orElse (error x) (output' x)) nextPrompt)
     \<and> (\<forall>out err ec. ec \<noteq> Some 0 \<longrightarrow>
           orElse (error (toExecutionResult (Closed out err ec)))
                  (output' (toExecutionResult (Closed out err ec)))
             = (if err \<noteq> [] then err else ''Command exited with code '' @ show_code ec))
     \<and> \<not> brk
     \<and> agentLoop cfg w request c currentPrompt results s
         = agentLoop cfg w request (c + 1) nextPrompt (results @ [cr]) s'"
proof -
  have np: "nextPrompt = generateFixPrompt currentPrompt (Some (LocalBuild r))" and nb: "\<not> brk"
    using body built failed budget unfolding cycleBody_def
    by (auto simp: Let_def freshCycle_def buildSucceeded_def
             split: prod.splits if_splits sum.splits)
  have loop: "agentLoop cfg w request c currentPrompt results s
         = agentLoop cfg w request (c + 1) nextPrompt (results @ [cr]) s'"
    using budget body nb by (simp add: agentLoop.simps [of cfg w request c currentPrompt results s])
  have sub: "\<forall>x\<in>set (failedPhases r). sublist (orElse (error x) (output' x)) nextPrompt"
    unfolding np by (blast intro: generateFixPrompt_sublist fixContext_sublist)
  show ?thesis
    using np nb loop sub stderr_is_the_error_text
    by (simp add: generateFixPrompt_def)
qed

theorem failed_build_feeds_the_next_prompt_witness:
  "buildResult (fst (cycleBody localAgent buildBreaksWorld bucketRequest 1
                       (prompt bucketRequest) start))
     = Some (LocalBuild brokenBuildCycle)
   \<and> \<not> b_success brokenBuildCycle
   \<and> 1 < maxCycles localAgent
   \<and> failedPhases brokenBuildCycle = [brokenBuild]
   \<and> orElse (error brokenBuild) (output' brokenBuild) = ''npm ERR! build failed''
   \<and> fst (snd (cycleBody localAgent buildBreaksWorld bucketRequest 1
                   (prompt bucketRequest) start))
       = ''create a storage bucket'' @ nl @ nl
         @ ''IMPORTANT: The previous attempt failed with the following errors:'' @ nl
         @ ''Build error: npm ERR! build failed'' @ nl @ nl @ nl
         @ ''Please fix these issues and generate corrected code that will build, synth, lint, and deploy successfully.''
   \<and> sublist ''npm ERR! build failed''
         (fst (snd (cycleBody localAgent buildBreaksWorld bucketRequest 1
                      (prompt bucketRequest) start)))"
proof -
  let ?X = "cycleBody localAgent buildBreaksWorld bucketRequest 1 (prompt bucketRequest) start"
  have x: "?X = (fst ?X, fst (snd ?X), fst (snd (snd ?X)), snd (snd (snd ?X)))" by simp
  have failed: "\<not> b_success brokenBuildCycle" by (simp add: brokenBuildCycle_def)
  have budget: "1 < maxCycles localAgent" by (simp add: localAgent_def)
  have fp: "failedPhases brokenBuildCycle = [brokenBuild]"
    by (simp add: failedPhases_def brokenBuildCycle_def brokenBuild_def List.map_filter_simps)
  have et: "orElse (error brokenBuild) (output' brokenBuild) = ''npm ERR! build failed''"
    by (simp add: orElse_def brokenBuild_def)
  have fc: "fixContext (Some (LocalBuild brokenBuildCycle))
              = ''Build error: npm ERR! build failed'' @ nl"
    by (simp add: fixContext_def fixLine_def orElse_def brokenBuildCycle_def brokenBuild_def)
  from failed_build_feeds_the_next_prompt [OF x buildBreaks_body failed budget, of "[]"]
  have np: "fst (snd ?X) = prompt bucketRequest @ nl @ nl
           @ ''IMPORTANT: The previous attempt failed with the following errors:'' @ nl
           @ fixContext (Some (LocalBuild brokenBuildCycle)) @ nl @ nl
           @ ''Please fix these issues and generate corrected code that will build, synth, lint, and deploy successfully.''"
    and sub: "\<forall>x\<in>set (failedPhases brokenBuildCycle).
                sublist (orElse (error x) (output' x)) (fst (snd ?X))"
    by blast+
  from sub fp et have s: "sublist ''npm ERR! build failed'' (fst (snd ?X))" by simp
  from np fc have p: "fst (snd ?X) = ''create a storage bucket'' @ nl @ nl
         @ ''IMPORTANT: The previous attempt failed with the following errors:'' @ nl
         @ ''Build error: npm ERR! build failed'' @ nl @ nl @ nl
         @ ''Please fix these issues and generate corrected code that will build, synth, lint, and deploy successfully.''"
    by (simp add: bucketRequest_def)
  from buildBreaks_body failed budget fp et p s show ?thesis by blast
qed

section \<open>C7: a file set that fails validation\<close>

lemma missingEntry_gen:
  "llm missingEntryWorld (clock start) (prompt bucketRequest) (cycleContext bucketRequest 1)
     = Inr [(''lib/tap_stack.go'', ''package lib''), (''cdk.json'', ''{}'')]"
  by (simp add: missingEntryWorld_def calmWorld_def)

lemma missingEntry_run:
  "fst (executeAgentCycle localAgent missingEntryWorld bucketRequest start)
     = Inr (recordsOf (executeAgentCycle localAgent missingEntryWorld bucketRequest start))
   \<and> map c_success (recordsOf (executeAgentCycle localAgent missingEntryWorld bucketRequest start))
       = [False, False, False]
   \<and> map buildResult (recordsOf (executeAgentCycle localAgent missingEntryWorld bucketRequest start))
       = [None, None, None]"
  by (simp add: agent_defs Let_def missingEntryWorld_def calmWorld_def localAgent_def
        bucketRequest_def start_def tick_def agentLoop.simps)

text \<open>
  C7: when the generation of a cycle succeeds but the file set fails validation (one of
  \<open>lib/tap_stack.go\<close>, \<open>bin/tap.go\<close>, \<open>cdk.json\<close> is missing or empty, a \<open>.go\<close> file has
  no package declaration, or \<open>cdk.json\<close> does not parse), the cycle is recorded as
  failed with the validation errors, the only event of the cycle is the generation
  request (nothing is delivered, no pipeline runs, no build result is recorded), the
  prompt is unchanged, and the loop goes on with the next cycle.
\<close>

theorem invalid_files_fail_the_cycle_without_build:
  assumes gen: "llm w (clock s) currentPrompt (cycleContext request c) = Inr fs"
    and bad: "(\<exists>f\<in>set requiredFiles. \<not> present fs f)
       \<or> (\<exists>(filePath, content)\<in>set fs.
             endsWith filePath ''.go'' \<and> \<not> str_includes content ''package '')
       \<or> (\<exists>content. map_of fs ''cdk.json'' = Some content \<and> content \<noteq> []
             \<and> \<not> json_parses w content)"
    and budget: "c \<le> maxCycles cfg"
  shows "\<exists>cr s'. cycleBody cfg w request c currentPrompt s = (cr, currentPrompt, False, s')
       \<and> \<not> c_success cr \<and> buildResult cr = None
       \<and> c_error cr = Some (''Generated code validation failed: ''
                              @ join '', '' (errors (validateGeneratedCode w fs)))
       \<and> newEvents s s' = [Generate currentPrompt (cycleContext request c)]
       \<and> agentLoop cfg w request c currentPrompt results s
           = agentLoop cfg w request (c + 1) currentPrompt (results @ [cr]) s'"
proof -
  from bad have nv: "\<not> valid (validateGeneratedCode w fs)"
    unfolding valid_iff by blast
  define cr where "cr = (freshCycle c)
     \<lparr>generationResult := Some \<lparr>g_success = True, files = fs, g_error = None\<rparr>,
      c_error := Some (''Generated code validation failed: ''
                       @ join '', '' (errors (validateGeneratedCode w fs)))\<rparr>"
  define s' where "s' = tick (Generate currentPrompt (cycleContext request c)) s"
  have body: "cycleBody cfg w request c currentPrompt s = (cr, currentPrompt, False, s')"
    using gen nv by (simp add: cycleBody_def generateCDKTFGoCode_def cr_def s'_def)
  have loop: "agentLoop cfg w request c currentPrompt results s
           = agentLoop cfg w request (c + 1) currentPrompt (results @ [cr]) s'"
    using budget body by (simp add: agentLoop.simps [of cfg w request c currentPrompt results s])
  show ?thesis
    using body loop
    by (intro exI [of _ cr] exI [of _ s'])
       (simp add: cr_def s'_def freshCycle_def newEvents_def)
qed

theorem invalid_files_fail_the_cycle_without_build_witness:
  "llm missingEntryWorld (clock start) (prompt bucketRequest) (cycleContext bucketRequest 1)
     = Inr [(''lib/tap_stack.go'', ''package lib''), (''cdk.json'', ''{}'')]
   \<and> \<not> present [(''lib/tap_stack.go'', ''package lib''), (''cdk.json'', ''{}'')] ''bin/tap.go''
   \<and> 1 \<le> maxCycles localAgent
   \<and> \<not> c_success (fst (cycleBody localAgent missingEntryWorld bucketRequest 1
                           (prompt bucketRequest) start))
   \<and> buildResult (fst (cycleBody localAgent missingEntryWorld bucketRequest 1
                          (prompt bucketRequest) start)) = None
   \<and> newEvents start (snd (snd (snd (cycleBody localAgent missingEntryWorld bucketRequest 1
                                        (prompt bucketRequest) start))))
       = [Generate (prompt bucketRequest) (cycleContext bucketRequest 1)]
   \<and> map buildResult (recordsOf (executeAgentCycle localAgent missingEntryWorld bucketRequest start))
       = [None, None, None]"
proof -
  let ?fs = "[(''lib/tap_stack.go'', ''package lib''), (''cdk.json'', ''{}'')]"
  have miss: "\<not> present ?fs ''bin/tap.go''" by (simp add: present_def)
  then have bad: "(\<exists>f\<in>set requiredFiles. \<not> present ?fs f)
       \<or> (\<exists>(filePath, content)\<in>set ?fs.
             endsWith filePath ''.go'' \<and> \<not> str_includes content ''package '')
       \<or> (\<exists>content. map_of ?fs ''cdk.json'' = Some content \<and> content \<noteq> []
             \<and> \<not> json_parses missingEntryWorld content)"
    by (simp add: requiredFiles_def)
  have budget: "1 \<le> maxCycles localAgent" by (simp add: localAgent_def)
  from invalid_files_fail_the_cycle_without_build
         [OF missingEntry_gen bad budget, of "[]"]
  obtain cr s' where
    "cycleBody localAgent missingEntryWorld bucketRequest 1 (prompt bucketRequest) start
       = (cr, prompt bucketRequest, False, s')"
    "\<not> c_success cr" "buildResult cr = None"
    "newEvents start s' = [Generate (prompt bucketRequest) (cycleContext bucketRequest 1)]"
    by blast
  with missingEntry_gen miss budget missingEntry_run show ?thesis by simp
qed

section \<open>C8: a deployment that meets an existing resource\<close>






section \<open>C9: the life of the remote session\<close>

text \<open>
  A run that returns has closed its session, and an exception inside a cycle (here a
  failed upload) is caught by the cycle, so the session is closed after the loop.
\<close>

lemma session_closed_on_return:
  "executeAgentCycle cfg w request s = (Inr rs, s') \<Longrightarrow> mcpServer cfg = Some m \<Longrightarrow>
     \<not> connected s'"
  by (auto simp: disconnect_def split: if_splits dest!: executeAgentCycle_Inr)

lemma upload_failure_closes_session:
  "fst (executeAgentCycle oneRemoteCycle uploadFailsWorld bucketRequest start)
     = Inr (recordsOf (executeAgentCycle oneRemoteCycle uploadFailsWorld bucketRequest start))
   \<and> map c_error (recordsOf (executeAgentCycle oneRemoteCycle uploadFailsWorld bucketRequest start))
     = [Some ''No response from server'']
   \<and> \<not> connected (snd (executeAgentCycle oneRemoteCycle uploadFailsWorld bucketRequest start))
   \<and> last (trace (snd (executeAgentCycle oneRemoteCycle uploadFailsWorld bucketRequest start)))
     = Dispose"
  by (simp add: agent_defs remote_defs Let_def uploadFailsWorld_def calmWorld_def
        oneRemoteCycle_def remoteAgent_def localAgent_def remoteServer_def bucketRequest_def
        start_def tick_def agentLoop.simps)

text \<open>
  C9: the session opened before cycle 1 is closed on every exit path of
  \<open>executeAgentCycle\<close>, also when an exception is thrown after the connection is
  established. The code does not do this for the bootstrap: \<open>setupRemoteEnvironment\<close>
  runs outside every \<open>try\<close>, so when its first remote command throws, the run throws
  with the session still open and nothing disposes it.
\<close>

theorem session_left_open_when_bootstrap_throws:
  "executeAgentCycle remoteAgent bootstrapFailsWorld bucketRequest start =
     (Inl ''Connection lost'',
      \<lparr>clock = 3, connected = True,
       trace = [ReadFile ''/home/me/.ssh/id_rsa'' True, Connect True,
                RExec ''test -d /home/ec2-user/iac-workspace/.git''
                  (SshThrow ''Connection lost'')]\<rparr>)"
  by (simp add: agent_defs remote_defs Let_def bootstrapFailsWorld_def calmWorld_def
        remoteAgent_def localAgent_def remoteServer_def bucketRequest_def start_def tick_def)

section \<open>C10: a run in local mode\<close>

lemma calm_local_run:
  "fst (executeAgentCycle localAgent calmWorld bucketRequest start)
     = Inr (recordsOf (executeAgentCycle localAgent calmWorld bucketRequest start))"
  by (simp add: exec_defs agent_defs Let_def executeBuildCycle_loop.simps agentLoop.simps
        calmWorld_def localAgent_def bucketRequest_def start_def)

lemma calm_local_success:
  "map c_success (recordsOf (executeAgentCycle localAgent calmWorld bucketRequest start))
     = [True, True, True]"
  by (simp add: exec_defs agent_defs Let_def executeBuildCycle_loop.simps agentLoop.simps
        calmWorld_def localAgent_def bucketRequest_def start_def)

lemma calm_local_outputs:
  "map deploymentOutputs (recordsOf (executeAgentCycle localAgent calmWorld bucketRequest start))
     = [Some [], Some [], Some []]"
  by (simp add: exec_defs agent_defs Let_def executeBuildCycle_loop.simps agentLoop.simps
        calmWorld_def localAgent_def bucketRequest_def start_def)

text \<open>
  C10: in local mode \<open>executeAgentCycle\<close> always returns, no cycle collects deployment
  outputs (the outputs of a successful cycle are the empty object, a failed cycle records
  none), so the expectation check accepts no cycle, the loop never ends early, and the
  run performs exactly \<open>maxCycles\<close> cycles, also when every cycle succeeds.
\<close>

theorem local_run_never_stops_early:
  assumes loc: "executionMode cfg = Local"
  shows "\<exists>rs s'. executeAgentCycle cfg w request s = (Inr rs, s')
           \<and> length rs = nat (maxCycles cfg)
           \<and> (\<forall>r\<in>set rs. deploymentOutputs r = (if c_success r then Some [] else None)
                          \<and> \<not> stopsRun request r)"
proof -
  obtain rs s3 where lp: "agentLoop cfg w request 1 (prompt request) [] s = (rs, s3)"
    by (cases "agentLoop cfg w request 1 (prompt request) [] s")
  have run: "executeAgentCycle cfg w request s = (Inr rs, s3)"
    using loc lp by (simp add: executeAgentCycle_def bindR_def mcpServer_def)
  have "\<forall>c p s. deploymentOutputs (fst (cycleBody cfg w request c p s))
            = (if c_success (fst (cycleBody cfg w request c p s)) then Some [] else None)"
    using cycleBody_local [OF loc] by (metis prod.collapse)
  from agentLoop_all [where P = "\<lambda>r. deploymentOutputs r = (if c_success r then Some [] else None)",
         OF this lp]
  have outs: "\<forall>r\<in>set rs. deploymentOutputs r = (if c_success r then Some [] else None)"
    by auto
  then have never: "\<forall>r\<in>set rs. \<not> stopsRun request r"
    using local_record_never_stops by blast
  from agentLoop_records [OF lp] never
  have "int (length rs) = max 0 (maxCycles cfg)" by auto
  then have "length rs = nat (maxCycles cfg)" by auto
  with run outs never show ?thesis by blast
qed

theorem local_run_never_stops_early_witness:
  "executionMode localAgent = Local
   \<and> fst (executeAgentCycle localAgent calmWorld bucketRequest start)
       = Inr (recordsOf (executeAgentCycle localAgent calmWorld bucketRequest start))
   \<and> map c_success (recordsOf (executeAgentCycle localAgent calmWorld bucketRequest start))
       = [True, True, True]
   \<and> map deploymentOutputs (recordsOf (executeAgentCycle localAgent calmWorld bucketRequest start))
       = [Some [], Some [], Some []]
   \<and> length (recordsOf (executeAgentCycle localAgent calmWorld bucketRequest start))
       = nat (maxCycles localAgent)"
proof -
  let ?X = "executeAgentCycle localAgent calmWorld bucketRequest start"
  have loc: "executionMode localAgent = Local" by (simp add: localAgent_def)
  from local_run_never_stops_early [OF loc, of calmWorld bucketRequest start]
  obtain rs s' where "?X = (Inr rs, s')" "length rs = nat (maxCycles localAgent)"
    by blast
  then have "length (recordsOf ?X) = nat (maxCycles localAgent)"
    by (simp add: recordsOf_def)
  with loc calm_local_run calm_local_success calm_local_outputs show ?thesis by simp
qed

end
